theory Spec2Isabelle
  imports Main "HOL-Library.Word" "HOL-Library.Multiset"
begin

section \<open>Ledger queries of a channel client (pkg/fab/channel/ledger.go)\<close>

text \<open>
  The development follows \<^verbatim>\<open>ledger.go\<close>: the response filter on Go slices, the
  dispatch helper \<^verbatim>\<open>queryChaincode\<close>, the block queries and the configuration
  query with its unwrap chain. A Go result \<^verbatim>\<open>(value, error)\<close> that carries
  either a value or an error is a sum (\<open>Inl\<close> the error); one that may carry both,
  as the multi-target reads do, is a pair whose error is an option (\<open>None\<close> is
  \<^verbatim>\<open>nil\<close>). A run-time panic is a result of its own, and every call that leaves
  the package (transaction header, proposal, dispatch, the verifier) is written to a log
  of events in the order in which the code makes it.
\<close>

subsection \<open>Errors\<close>

type_synonym bytes = "8 word list"
type_synonym int32 = "32 word"

text \<open>
  An error value is kept as the call that built it: \<^verbatim>\<open>errors.New\<close>,
  \<^verbatim>\<open>errors.Errorf\<close> with its format string and arguments, \<^verbatim>\<open>errors.Wrap\<close> and
  \<^verbatim>\<open>errors.WithMessage\<close> with the wrapped cause, a failure reported by
  \<^verbatim>\<open>proto.Unmarshal\<close>, and the collection \<^verbatim>\<open>multi.Errors\<close>.
\<close>

datatype error =
    New string
  | Errorf string "fmtarg list"
  | Wrap error string
  | WithMessage error string
  | UnmarshalError string
  | Errors "error list"
and fmtarg =
    ArgString string
  | ArgInt32 int32
  | ArgError error

text \<open>
  Modelled from the spec: the entries of an aggregated error (\<^verbatim>\<open>multi.Errors\<close> of
  package \<^verbatim>\<open>pkg/util/errors/multi\<close>, which is not among the sources). The spec
  describes the aggregated error as an ordered collection of per-target failures;
  \<^verbatim>\<open>nil\<close> has no entry and an error that is not a collection counts as a collection
  of one entry.
\<close>

fun error_entries :: "error option \<Rightarrow> error list" where
  "error_entries None = []"
| "error_entries (Some (Errors es)) = es"
| "error_entries (Some e) = [e]"

text \<open>
  Modelled from the spec: \<^verbatim>\<open>multi.Append\<close> of the same package. The collection
  never collapses to a single message: appending puts the failure at the end of the
  collection, and appending \<^verbatim>\<open>nil\<close> adds nothing.
\<close>

definition multi_Append :: "error option \<Rightarrow> error option \<Rightarrow> error option" where
  "multi_Append errs err =
     (case err of
        None \<Rightarrow> errs
      | Some e \<Rightarrow> Some (Errors (error_entries errs @ [e])))"

subsection \<open>Panics and results\<close>

datatype panic = NilDereference | IndexOutOfRange

datatype 'a outcome = Return 'a | Panic panic

subsection \<open>Messages\<close>

text \<open>
  The protobuf messages, with the fields that \<^verbatim>\<open>ledger.go\<close> reads. A field that is a
  pointer to a message is an option; a nested message that the code hands on without
  reading stays a byte string.
\<close>

record Response =
  Response_Payload :: bytes

record ProposalResponse =
  ProposalResponse_Response :: "Response option"

record TransactionProposalResponse =
  Endorser :: string
  Status :: int32
  ProposalResponse :: "ProposalResponse option"

record BlockData =
  BlockData_Data :: "bytes list"

record Block =
  Block_Data :: "BlockData option"

record Envelope =
  Envelope_Payload :: bytes

record Header =
  Header_ChannelHeader :: bytes

record Payload =
  Payload_Header :: "Header option"
  Payload_Data :: bytes

record ChannelHeader =
  ChannelHeader_Type :: int32

record ConfigEnvelope =
  ConfigEnvelope_Config :: bytes
  ConfigEnvelope_LastUpdate :: bytes

record ProcessedTransaction =
  ProcessedTransaction_TransactionEnvelope :: bytes
  ProcessedTransaction_ValidationCode :: int32

text \<open>
  \<^verbatim>\<open>proto.Unmarshal\<close> is a library call; the decoder of each message type is a
  parameter, returning the library's error or the decoded message.
\<close>

record proto =
  unmarshal_Block :: "bytes \<Rightarrow> error + Block"
  unmarshal_Envelope :: "bytes \<Rightarrow> error + Envelope"
  unmarshal_Payload :: "bytes \<Rightarrow> error + Payload"
  unmarshal_ChannelHeader :: "bytes \<Rightarrow> error + ChannelHeader"
  unmarshal_ConfigEnvelope :: "bytes \<Rightarrow> error + ConfigEnvelope"
  unmarshal_ProcessedTransaction :: "bytes \<Rightarrow> error + ProcessedTransaction"

definition StatusOK :: int32 where
  "StatusOK = 200"

text \<open>
  Modelled from the spec: the constant \<^verbatim>\<open>common.HeaderType_CONFIG\<close> of the protobuf
  package, which is not among the sources; the spec calls it the numeric CONFIG
  designation of a channel header, which is 1 on the wire.
\<close>

definition HeaderType_CONFIG :: int32 where
  "HeaderType_CONFIG = 1"

subsection \<open>The verifier and the calls that leave the package\<close>

text \<open>
  \<^verbatim>\<open>ResponseVerifier\<close> is an interface of two methods; an interface value may be
  \<^verbatim>\<open>nil\<close>, so the functions below take a \<open>verifier option\<close>.
\<close>

record verifier =
  Verify :: "TransactionProposalResponse \<Rightarrow> error option"
  Match :: "TransactionProposalResponse list \<Rightarrow> error option"

type_synonym target = string

record ChaincodeInvokeRequest =
  ChaincodeID :: string
  Fcn :: string
  Args :: "bytes list"

datatype ClientContext = ClientContext string

datatype TransactionHeader = TransactionHeader string string

datatype TransactionProposal = TransactionProposal TransactionHeader ChaincodeInvokeRequest

text \<open>
  The collaborators of \<^verbatim>\<open>queryChaincode\<close> (the request context and package
  \<^verbatim>\<open>txn\<close>) and the request builders of the system chaincodes, which live in other
  files of the package, are parameters.
\<close>

record env =
  RequestClientContext :: "ClientContext option"
  NewHeader :: "ClientContext \<Rightarrow> string \<Rightarrow> error + TransactionHeader"
  CreateChaincodeInvokeProposal ::
    "TransactionHeader \<Rightarrow> ChaincodeInvokeRequest \<Rightarrow> error + TransactionProposal"
  SendProposal ::
    "TransactionProposal \<Rightarrow> target list \<Rightarrow> TransactionProposalResponse list \<times> error option"
  createBlockByHashInvokeRequest :: "string \<Rightarrow> bytes \<Rightarrow> ChaincodeInvokeRequest"
  createBlockByTxIDInvokeRequest :: "string \<Rightarrow> string \<Rightarrow> ChaincodeInvokeRequest"
  createTransactionByIDInvokeRequest :: "string \<Rightarrow> string \<Rightarrow> ChaincodeInvokeRequest"
  createConfigBlockInvokeRequest :: "string \<Rightarrow> ChaincodeInvokeRequest"

datatype event =
    EvNewHeader string
  | EvCreateProposal ChaincodeInvokeRequest
  | EvSendProposal TransactionProposal "target list"
  | EvVerify TransactionProposalResponse
  | EvMatch "TransactionProposalResponse list"

subsection \<open>Go slices\<close>

text \<open>
  A slice is a window on a backing array: the array it points into, the offset of its
  first element, its length and its capacity. The store is the list of all backing
  arrays. \<^verbatim>\<open>append\<close> writes into the backing array while the capacity allows and
  moves to a new array otherwise (how much spare capacity the new array gets is left to
  the Go runtime; the model gives it none).
\<close>

record slice =
  s_arr :: nat
  s_off :: nat
  s_len :: nat
  s_cap :: nat

type_synonym 'a store = "'a list list"

definition slice_wf :: "'a store \<Rightarrow> slice \<Rightarrow> bool" where
  "slice_wf h s \<longleftrightarrow>
     s_arr s < length h \<and> s_len s \<le> s_cap s \<and> s_off s + s_cap s \<le> length (h ! s_arr s)"

definition slice_elems :: "'a store \<Rightarrow> slice \<Rightarrow> 'a list" where
  "slice_elems h s = take (s_len s) (drop (s_off s) (h ! s_arr s))"

definition slice_get :: "'a store \<Rightarrow> slice \<Rightarrow> nat \<Rightarrow> 'a" where
  "slice_get h s i = (h ! s_arr s) ! (s_off s + i)"

definition slice_append :: "'a store \<Rightarrow> slice \<Rightarrow> 'a \<Rightarrow> slice \<times> 'a store" where
  "slice_append h s x =
     (if s_len s < s_cap s
      then (s\<lparr>s_len := s_len s + 1\<rparr>,
            h[s_arr s := (h ! s_arr s)[s_off s + s_len s := x]])
      else (\<lparr>s_arr = length h, s_off = 0, s_len = s_len s + 1, s_cap = s_len s + 1\<rparr>,
            h @ [slice_elems h s @ [x]]))"

definition slice_alloc :: "'a store \<Rightarrow> 'a list \<Rightarrow> slice \<times> 'a store" where
  "slice_alloc h xs =
     (\<lparr>s_arr = length h, s_off = 0, s_len = length xs, s_cap = length xs\<rparr>, h @ [xs])"

subsection \<open>filterResponses\<close>

record fstate =
  f_store :: "TransactionProposalResponse store"
  f_filtered :: slice
  f_errs :: "error option"
  f_events :: "event list"

definition keep_response :: "TransactionProposalResponse \<Rightarrow> fstate \<Rightarrow> fstate" where
  "keep_response response st =
     (let (s, h) = slice_append (f_store st) (f_filtered st) response
      in st\<lparr>f_store := h, f_filtered := s\<rparr>)"

text \<open>The body of the loop, for one \<^verbatim>\<open>response\<close>.\<close>

definition filterStep ::
  "verifier option \<Rightarrow> TransactionProposalResponse \<Rightarrow> fstate \<Rightarrow> fstate" where
  "filterStep v response st =
     (if Status response = StatusOK then
        (case v of
           None \<Rightarrow> keep_response response st
         | Some vf \<Rightarrow>
             (let st' = st\<lparr>f_events := f_events st @ [EvVerify response]\<rparr>
              in case Verify vf response of
                   Some err \<Rightarrow>
                     st'\<lparr>f_errs := multi_Append (f_errs st')
                       (Some (Errorf ''failed to verify response from %s: %s''
                          [ArgString (Endorser response), ArgError err]))\<rparr>
                 | None \<Rightarrow> keep_response response st'))
      else
        st\<lparr>f_errs := multi_Append (f_errs st)
          (Some (Errorf ''bad status from %s (%d)''
             [ArgString (Endorser response), ArgInt32 (Status response)]))\<rparr>)"

text \<open>
  \<^verbatim>\<open>for _, response := range responses\<close> fixes the slice header once and reads
  element \<open>i\<close> from the backing array when iteration \<open>i\<close> starts, so a write made by an
  earlier iteration is seen by a later read of the same position.
\<close>

definition filterResponses ::
  "TransactionProposalResponse store \<Rightarrow> slice \<Rightarrow> error option \<Rightarrow> verifier option \<Rightarrow>
   fstate" where
  "filterResponses h responses errs v =
     fold (\<lambda>i st. filterStep v (slice_get (f_store st) responses i) st)
       [0 ..< s_len responses]
       \<lparr>f_store = h, f_filtered = responses\<lparr>s_len := 0\<rparr>, f_errs = errs, f_events = []\<rparr>"

subsection \<open>queryChaincode\<close>

text \<open>
  The result is the filtered responses and the aggregated error, with the events of
  the call. \<^verbatim>\<open>SendProposal\<close> hands back a slice of its own; its backing array is the
  one array of a store that lives for this call, and the filtered slice is read back
  from that store.
\<close>

definition queryChaincode ::
  "env \<Rightarrow> string \<Rightarrow> ChaincodeInvokeRequest \<Rightarrow> target list \<Rightarrow> verifier option \<Rightarrow>
   (TransactionProposalResponse list \<times> error option) \<times> event list" where
  "queryChaincode e channelID request targets v =
     (case RequestClientContext e of
        None \<Rightarrow>
          (([], Some (New ''failed get client context from reqContext for signProposal'')), [])
      | Some ctx \<Rightarrow>
          (case NewHeader e ctx channelID of
             Inl err \<Rightarrow>
               (([], Some (WithMessage err ''creation of transaction ID failed'')),
                [EvNewHeader channelID])
           | Inr txh \<Rightarrow>
               (case CreateChaincodeInvokeProposal e txh request of
                  Inl err \<Rightarrow>
                    (([], Some (WithMessage err ''NewProposal failed'')),
                     [EvNewHeader channelID, EvCreateProposal request])
                | Inr tp \<Rightarrow>
                    (let (tprs, errs) = SendProposal e tp targets;
                         (responses, h) = slice_alloc [] tprs;
                         st = filterResponses h responses errs v
                     in ((slice_elems (f_store st) (f_filtered st), f_errs st),
                         [EvNewHeader channelID, EvCreateProposal request,
                          EvSendProposal tp targets] @ f_events st)))))"

subsection \<open>Decoding the responses\<close>

text \<open>
  \<^verbatim>\<open>tpr.ProposalResponse.GetResponse().Payload\<close>: the getter answers \<^verbatim>\<open>nil\<close> for
  a \<^verbatim>\<open>nil\<close> receiver and for an unset field, and reading \<^verbatim>\<open>Payload\<close> through
  \<^verbatim>\<open>nil\<close> panics.
\<close>

definition response_payload :: "TransactionProposalResponse \<Rightarrow> bytes outcome" where
  "response_payload tpr =
     (case ProposalResponse tpr of
        None \<Rightarrow> Panic NilDereference
      | Some pr \<Rightarrow>
          (case ProposalResponse_Response pr of
             None \<Rightarrow> Panic NilDereference
           | Some r \<Rightarrow> Return (Response_Payload r)))"

definition createCommonBlock ::
  "proto \<Rightarrow> TransactionProposalResponse \<Rightarrow> (error + Block) outcome" where
  "createCommonBlock p tpr =
     (case response_payload tpr of
        Panic x \<Rightarrow> Panic x
      | Return payload \<Rightarrow>
          (case unmarshal_Block p payload of
             Inl err \<Rightarrow> Return (Inl (Wrap err ''unmarshal of transaction proposal response failed''))
           | Inr response \<Rightarrow> Return (Inr response)))"

definition createProcessedTransaction ::
  "proto \<Rightarrow> TransactionProposalResponse \<Rightarrow> (error + ProcessedTransaction) outcome" where
  "createProcessedTransaction p tpr =
     (case response_payload tpr of
        Panic x \<Rightarrow> Panic x
      | Return payload \<Rightarrow>
          (case unmarshal_ProcessedTransaction p payload of
             Inl err \<Rightarrow> Return (Inl (Wrap err ''unmarshal of transaction proposal response failed''))
           | Inr response \<Rightarrow> Return (Inr response)))"

text \<open>
  The loop shared by the multi-target reads: a response that does not decode adds an
  entry naming its endorser to the aggregated error, the others are collected.
\<close>

fun collect ::
  "(TransactionProposalResponse \<Rightarrow> (error + 'a) outcome) \<Rightarrow> TransactionProposalResponse list \<Rightarrow>
   'a list \<Rightarrow> error option \<Rightarrow> ('a list \<times> error option) outcome" where
  "collect create [] responses errs = Return (responses, errs)"
| "collect create (tpr # tprs) responses errs =
     (case create tpr of
        Panic x \<Rightarrow> Panic x
      | Return (Inl err) \<Rightarrow>
          collect create tprs responses
            (multi_Append errs (Some (WithMessage err (''From target: '' @ Endorser tpr))))
      | Return (Inr r) \<Rightarrow> collect create tprs (responses @ [r]) errs)"

definition getConfigBlocks ::
  "proto \<Rightarrow> TransactionProposalResponse list \<Rightarrow> (Block list \<times> error option) outcome" where
  "getConfigBlocks p tprs = collect (createCommonBlock p) tprs [] None"

subsection \<open>The block and transaction queries\<close>

record Ledger =
  chName :: string

text \<open>A \<^verbatim>\<open>[]byte\<close> argument may be \<^verbatim>\<open>nil\<close>, which is not the empty byte string.\<close>

definition QueryBlockByHash ::
  "env \<Rightarrow> proto \<Rightarrow> Ledger \<Rightarrow> bytes option \<Rightarrow> target list \<Rightarrow> verifier option \<Rightarrow>
   (Block list \<times> error option) outcome \<times> event list" where
  "QueryBlockByHash e p c blockHash targets v =
     (case blockHash of
        None \<Rightarrow> (Return ([], Some (New ''blockHash is required'')), [])
      | Some hash \<Rightarrow>
          (let cir = createBlockByHashInvokeRequest e (chName c) hash;
               ((tprs, errs), evs) = queryChaincode e (chName c) cir targets v
           in case getConfigBlocks p tprs of
                Panic x \<Rightarrow> (Panic x, evs)
              | Return (responses, errors) \<Rightarrow> (Return (responses, multi_Append errs errors), evs)))"

definition QueryBlockByTxID ::
  "env \<Rightarrow> proto \<Rightarrow> Ledger \<Rightarrow> string \<Rightarrow> target list \<Rightarrow> verifier option \<Rightarrow>
   (Block list \<times> error option) outcome \<times> event list" where
  "QueryBlockByTxID e p c txID targets v =
     (if txID = [] then (Return ([], Some (New ''txID is required'')), [])
      else
        (let cir = createBlockByTxIDInvokeRequest e (chName c) txID;
             ((tprs, errs), evs) = queryChaincode e (chName c) cir targets v
         in case getConfigBlocks p tprs of
              Panic x \<Rightarrow> (Panic x, evs)
            | Return (responses, errors) \<Rightarrow> (Return (responses, multi_Append errs errors), evs)))"

definition QueryTransaction ::
  "env \<Rightarrow> proto \<Rightarrow> Ledger \<Rightarrow> string \<Rightarrow> target list \<Rightarrow> verifier option \<Rightarrow>
   (ProcessedTransaction list \<times> error option) outcome \<times> event list" where
  "QueryTransaction e p c transactionID targets v =
     (let cir = createTransactionByIDInvokeRequest e (chName c) transactionID;
          ((tprs, errs), evs) = queryChaincode e (chName c) cir targets v
      in (collect (createProcessedTransaction p) tprs [] errs, evs))"

subsection \<open>The configuration query\<close>

definition block_must_be_CONFIG :: string where
  "block_must_be_CONFIG = ''block must be of type '' @ [CHR 0x27] @ ''CONFIG'' @ [CHR 0x27]"

definition createConfigEnvelope :: "proto \<Rightarrow> bytes \<Rightarrow> (error + ConfigEnvelope) outcome" where
  "createConfigEnvelope p data =
     (case unmarshal_Envelope p data of
        Inl err \<Rightarrow> Return (Inl (Wrap err ''unmarshal envelope from config block failed''))
      | Inr envelope \<Rightarrow>
     (case unmarshal_Payload p (Envelope_Payload envelope) of
        Inl err \<Rightarrow> Return (Inl (Wrap err ''unmarshal payload from envelope failed''))
      | Inr payload \<Rightarrow>
     (case Payload_Header payload of
        None \<Rightarrow> Panic NilDereference
      | Some header \<Rightarrow>
     (case unmarshal_ChannelHeader p (Header_ChannelHeader header) of
        Inl err \<Rightarrow> Return (Inl (Wrap err ''unmarshal payload from envelope failed''))
      | Inr channelHeader \<Rightarrow>
          if ChannelHeader_Type channelHeader \<noteq> HeaderType_CONFIG
          then Return (Inl (New block_must_be_CONFIG))
          else
            (case unmarshal_ConfigEnvelope p (Payload_Data payload) of
               Inl err \<Rightarrow> Return (Inl (Wrap err ''unmarshal config envelope failed''))
             | Inr configEnvelope \<Rightarrow> Return (Inr configEnvelope))))))"

text \<open>
  The last two statements of \<^verbatim>\<open>QueryConfigBlock\<close>:
  \<^verbatim>\<open>block, _ := createCommonBlock(tprs[0])\<close> drops the error, so a failed decode
  leaves \<^verbatim>\<open>block\<close> \<^verbatim>\<open>nil\<close>, and \<^verbatim>\<open>block.Data.Data[0]\<close> reads through two
  pointers and indexes a slice.
\<close>

definition extractConfig ::
  "proto \<Rightarrow> TransactionProposalResponse list \<Rightarrow> (error + ConfigEnvelope) outcome" where
  "extractConfig p tprs =
     (case tprs of
        [] \<Rightarrow> Panic IndexOutOfRange
      | tpr # _ \<Rightarrow>
     (case createCommonBlock p tpr of
        Panic x \<Rightarrow> Panic x
      | Return (Inl _) \<Rightarrow> Panic NilDereference
      | Return (Inr block) \<Rightarrow>
     (case Block_Data block of
        None \<Rightarrow> Panic NilDereference
      | Some d \<Rightarrow>
     (case BlockData_Data d of
        [] \<Rightarrow> Panic IndexOutOfRange
      | data # _ \<Rightarrow> createConfigEnvelope p data))))"

text \<open>
  \<^verbatim>\<open>verifier.Match(tprs)\<close> and what follows it; calling a method of a \<^verbatim>\<open>nil\<close>
  interface value panics.
\<close>

definition matchAndExtract ::
  "proto \<Rightarrow> verifier option \<Rightarrow> TransactionProposalResponse list \<Rightarrow>
   (error + ConfigEnvelope) outcome \<times> event list" where
  "matchAndExtract p v tprs =
     (case v of
        None \<Rightarrow> (Panic NilDereference, [])
      | Some vf \<Rightarrow>
          (case Match vf tprs of
             Some matchErr \<Rightarrow> (Return (Inl matchErr), [EvMatch tprs])
           | None \<Rightarrow> (extractConfig p tprs, [EvMatch tprs])))"

definition QueryConfigBlock ::
  "env \<Rightarrow> proto \<Rightarrow> Ledger \<Rightarrow> target list \<Rightarrow> verifier option \<Rightarrow>
   (error + ConfigEnvelope) outcome \<times> event list" where
  "QueryConfigBlock e p c targets v =
     (if length targets = 0 then (Return (Inl (New ''target(s) required'')), [])
      else
        (let cir = createConfigBlockInvokeRequest e (chName c);
             ((tprs, err), evs) = queryChaincode e (chName c) cir targets v
         in case (err, tprs) of
              (Some qerr, []) \<Rightarrow> (Return (Inl (WithMessage qerr ''queryChaincode failed'')), evs)
            | _ \<Rightarrow> (let (r, evs') = matchAndExtract p v tprs in (r, evs @ evs'))))"

subsection \<open>The target selector and the quorum verifier\<close>

text \<open>
  Modelled from the spec: \<^verbatim>\<open>randomMaxTargets\<close>, the target selector of the
  channel-configuration retriever, of which only the test is among the sources. The spec
  asks for a subset of size \<open>min(maxTargets, N)\<close> without duplicates, chosen by random
  sampling. The random source is a parameter, a list of draws: each round takes the
  candidate at the drawn position (reduced modulo the number of candidates left; position
  0 when the draws are used up) and removes it from the candidates.
\<close>

fun randomMaxTargets :: "nat list \<Rightarrow> 'a list \<Rightarrow> nat \<Rightarrow> 'a list" where
  "randomMaxTargets draws targets 0 = []"
| "randomMaxTargets draws [] (Suc k) = []"
| "randomMaxTargets draws (t # ts) (Suc k) =
     (let i = (case draws of [] \<Rightarrow> 0 | d # _ \<Rightarrow> d mod length (t # ts))
      in (t # ts) ! i #
         randomMaxTargets (tl draws) (take i (t # ts) @ drop (Suc i) (t # ts)) k)"

text \<open>
  Modelled from the spec: the quorum verifier that the channel-configuration retriever
  hands to \<^verbatim>\<open>QueryConfigBlock\<close>; its implementation is not among the sources. By the
  spec, \<^verbatim>\<open>Match\<close> fails with a descriptive error when the filtered set is empty, when
  it holds fewer than \<open>minResponses\<close> responses, or when the responses do not agree, and
  succeeds otherwise. What counts as agreement and what \<^verbatim>\<open>Verify\<close> checks are
  parameters.
\<close>

definition quorumVerifier ::
  "nat \<Rightarrow> (TransactionProposalResponse list \<Rightarrow> bool) \<Rightarrow>
   (TransactionProposalResponse \<Rightarrow> error option) \<Rightarrow> verifier" where
  "quorumVerifier minResponses agree verify =
     \<lparr>Verify = verify,
      Match = (\<lambda>responses.
        if responses = [] then Some (New ''no responses to match'')
        else if length responses < minResponses then
          Some (Errorf ''required minimum %d responses, got %d''
                  [ArgInt32 (of_nat minResponses), ArgInt32 (of_nat (length responses))])
        else if agree responses then None
        else Some (New ''responses do not match''))\<rparr>"

subsection \<open>What the filter keeps and what it records\<close>

text \<open>
  The vocabulary of the statements about \<^verbatim>\<open>filterResponses\<close>: a response is accepted
  when its status is 200 and the verifier, if there is one, has nothing against it; a
  rejected response leaves one error, built from its endorser; a response with status 200
  is shown to the verifier, if there is one.
\<close>

definition accepted :: "verifier option \<Rightarrow> TransactionProposalResponse \<Rightarrow> bool" where
  "accepted v r \<longleftrightarrow>
     Status r = StatusOK \<and> (case v of None \<Rightarrow> True | Some vf \<Rightarrow> Verify vf r = None)"

definition rejections :: "verifier option \<Rightarrow> TransactionProposalResponse \<Rightarrow> error list" where
  "rejections v r =
     (if Status r = StatusOK then
        (case v of
           None \<Rightarrow> []
         | Some vf \<Rightarrow>
             (case Verify vf r of
                None \<Rightarrow> []
              | Some err \<Rightarrow>
                  [Errorf ''failed to verify response from %s: %s''
                     [ArgString (Endorser r), ArgError err]]))
      else [Errorf ''bad status from %s (%d)'' [ArgString (Endorser r), ArgInt32 (Status r)]])"

definition verify_events :: "verifier option \<Rightarrow> TransactionProposalResponse \<Rightarrow> event list" where
  "verify_events v r = (if Status r = StatusOK \<and> v \<noteq> None then [EvVerify r] else [])"

definition append_all :: "error option \<Rightarrow> error list \<Rightarrow> error option" where
  "append_all errs es = fold (\<lambda>e acc. multi_Append acc (Some e)) es errs"

text \<open>The state of the loop of \<^verbatim>\<open>filterResponses\<close> after the first \<open>k\<close> responses.\<close>

definition filtered_prefix ::
  "TransactionProposalResponse store \<Rightarrow> slice \<Rightarrow> error option \<Rightarrow> verifier option \<Rightarrow> nat \<Rightarrow>
   fstate" where
  "filtered_prefix h rs errs v k =
     (let xs = take k (slice_elems h rs); F = filter (accepted v) xs; A = h ! s_arr rs
      in \<lparr>f_store = h[s_arr rs := take (s_off rs) A @ F @ drop (s_off rs + length F) A],
          f_filtered = rs\<lparr>s_len := length F\<rparr>,
          f_errs = append_all errs (concat (map (rejections v) xs)),
          f_events = concat (map (verify_events v) xs)\<rparr>)"

subsection \<open>Concrete inputs\<close>

text \<open>
  A peer's response with an endorser name, a status and a payload; a wire format small
  enough to write messages by hand (the first byte names the message type); an
  environment whose dispatch answers with given responses and a given error; and the
  verifier that checks nothing, which the design notes of the spec allow.
\<close>

definition peer_response :: "string \<Rightarrow> int32 \<Rightarrow> bytes \<Rightarrow> TransactionProposalResponse" where
  "peer_response name st payload =
     \<lparr>Endorser = name, Status = st,
      ProposalResponse = Some \<lparr>ProposalResponse_Response = Some \<lparr>Response_Payload = payload\<rparr>\<rparr>\<rparr>"

definition toy_proto :: proto where
  "toy_proto =
     \<lparr>unmarshal_Block = (\<lambda>bs. case bs of
          [] \<Rightarrow> Inr \<lparr>Block_Data = None\<rparr>
        | b # rest \<Rightarrow>
            if b = 0 then Inr \<lparr>Block_Data = Some \<lparr>BlockData_Data = []\<rparr>\<rparr>
            else if b = 1 then Inr \<lparr>Block_Data = Some \<lparr>BlockData_Data = [rest]\<rparr>\<rparr>
            else Inl (UnmarshalError ''proto: bad wiretype'')),
      unmarshal_Envelope = (\<lambda>bs. case bs of
          [] \<Rightarrow> Inr \<lparr>Envelope_Payload = []\<rparr>
        | b # rest \<Rightarrow>
            if b = 2 then Inr \<lparr>Envelope_Payload = rest\<rparr>
            else Inl (UnmarshalError ''proto: bad wiretype'')),
      unmarshal_Payload = (\<lambda>bs. case bs of
          [] \<Rightarrow> Inr \<lparr>Payload_Header = None, Payload_Data = []\<rparr>
        | b # rest \<Rightarrow>
            if b = 3
            then Inr \<lparr>Payload_Header = Some \<lparr>Header_ChannelHeader = take 2 rest\<rparr>,
                      Payload_Data = drop 2 rest\<rparr>
            else Inl (UnmarshalError ''proto: bad wiretype'')),
      unmarshal_ChannelHeader = (\<lambda>bs. case bs of
          [] \<Rightarrow> Inr \<lparr>ChannelHeader_Type = 0\<rparr>
        | b # rest \<Rightarrow>
            if b = 4 then Inr \<lparr>ChannelHeader_Type = (case rest of [] \<Rightarrow> 0 | t # _ \<Rightarrow> ucast t)\<rparr>
            else Inl (UnmarshalError ''proto: bad wiretype'')),
      unmarshal_ConfigEnvelope = (\<lambda>bs. case bs of
          [] \<Rightarrow> Inr \<lparr>ConfigEnvelope_Config = [], ConfigEnvelope_LastUpdate = []\<rparr>
        | b # rest \<Rightarrow>
            if b = 5 then Inr \<lparr>ConfigEnvelope_Config = rest, ConfigEnvelope_LastUpdate = []\<rparr>
            else Inl (UnmarshalError ''proto: bad wiretype'')),
      unmarshal_ProcessedTransaction = (\<lambda>bs. case bs of
          [] \<Rightarrow> Inr \<lparr>ProcessedTransaction_TransactionEnvelope = [],
                    ProcessedTransaction_ValidationCode = 0\<rparr>
        | b # rest \<Rightarrow>
            if b = 6 then Inr \<lparr>ProcessedTransaction_TransactionEnvelope = rest,
                               ProcessedTransaction_ValidationCode = 0\<rparr>
            else Inl (UnmarshalError ''proto: bad wiretype''))\<rparr>"

definition dispatch_env ::
  "TransactionProposalResponse list \<Rightarrow> error option \<Rightarrow> env" where
  "dispatch_env tprs errs =
     \<lparr>RequestClientContext = Some (ClientContext ''test''),
      NewHeader = (\<lambda>ctx channelID. Inr (TransactionHeader ''txid'' channelID)),
      CreateChaincodeInvokeProposal = (\<lambda>txh request. Inr (TransactionProposal txh request)),
      SendProposal = (\<lambda>tp targets. (tprs, errs)),
      createBlockByHashInvokeRequest = (\<lambda>channelID hash.
        \<lparr>ChaincodeID = ''qscc'', Fcn = ''GetBlockByHash'', Args = [map of_char channelID, hash]\<rparr>),
      createBlockByTxIDInvokeRequest = (\<lambda>channelID txID.
        \<lparr>ChaincodeID = ''qscc'', Fcn = ''GetBlockByTxID'',
         Args = [map of_char channelID, map of_char txID]\<rparr>),
      createTransactionByIDInvokeRequest = (\<lambda>channelID txID.
        \<lparr>ChaincodeID = ''qscc'', Fcn = ''GetTransactionByID'',
         Args = [map of_char channelID, map of_char txID]\<rparr>),
      createConfigBlockInvokeRequest = (\<lambda>channelID.
        \<lparr>ChaincodeID = ''cscc'', Fcn = ''GetConfigBlock'', Args = [map of_char channelID]\<rparr>)\<rparr>"

definition accept_all :: verifier where
  "accept_all = \<lparr>Verify = (\<lambda>response. None), Match = (\<lambda>responses. None)\<rparr>"

definition testChannel :: Ledger where
  "testChannel = \<lparr>chName = ''testChannel''\<rparr>"

text \<open>
  A configuration block in the small wire format: a block with one data entry, an
  envelope, a payload whose channel header has type CONFIG, and a configuration envelope.
\<close>

definition config_block_payload :: bytes where
  "config_block_payload = [1, 2, 3, 4, 1, 5, 42]"

definition quorum_of_two :: verifier where
  "quorum_of_two = quorumVerifier 2 (\<lambda>responses. True) (\<lambda>response. None)"

text \<open>
  One peer that answers with the configuration block; one peer that answers with status
  500; a dispatch that brings back neither a response nor an error; and two peers of which
  the first answers with status 500 and the second with the configuration block.
\<close>

definition one_peer_env :: env where
  "one_peer_env = dispatch_env [peer_response ''Peer1'' 200 config_block_payload] None"

definition failing_peer_env :: env where
  "failing_peer_env = dispatch_env [peer_response ''Peer1'' 500 []] None"

definition silent_env :: env where
  "silent_env = dispatch_env [] None"

definition two_peer_env :: env where
  "two_peer_env =
     dispatch_env
       [peer_response ''Peer0'' 500 [], peer_response ''Peer1'' 200 config_block_payload] None"

section \<open>Properties\<close>

subsection \<open>The loop of filterResponses\<close>

lemma error_entries_multi_Append:
  "error_entries (multi_Append errs (Some e)) = error_entries errs @ [e]"
  by (simp add: multi_Append_def)

lemma error_entries_append_all:
  "error_entries (append_all errs es) = error_entries errs @ es"
  unfolding append_all_def
  by (induction es arbitrary: errs) (simp_all add: error_entries_multi_Append)

lemma append_all_append: "append_all errs (es @ es') = append_all (append_all errs es) es'"
  by (simp add: append_all_def)

lemma nth_behind_written:
  assumes "length F \<le> k" and "off + k < length A"
  shows "(take off A @ F @ drop (off + length F) A) ! (off + k) = A ! (off + k)"
proof -
  have l: "length (take off A) = off"
    using assms by simp
  have "(take off A @ F @ drop (off + length F) A) ! (off + k)
        = (F @ drop (off + length F) A) ! k"
    using l by (metis nth_append_length_plus)
  also have "\<dots> = drop (off + length F) A ! (k - length F)"
    using assms by (simp add: nth_append)
  also have "\<dots> = A ! (off + k)"
    using assms by simp
  finally show ?thesis .
qed

lemma update_behind_written:
  assumes "off + length F < length A"
  shows "(take off A @ F @ drop (off + length F) A)[off + length F := x]
         = take off A @ (F @ [x]) @ drop (off + Suc (length F)) A"
proof -
  have l: "length (take off A) = off"
    using assms by simp
  have d: "drop (off + length F) A = A ! (off + length F) # drop (off + Suc (length F)) A"
    using assms by (simp add: Cons_nth_drop_Suc)
  show ?thesis
    using l by (simp add: list_update_append d)
qed

lemma length_slice_elems:
  assumes "slice_wf h rs"
  shows "length (slice_elems h rs) = s_len rs"
  using assms by (auto simp: slice_elems_def slice_wf_def)

lemma slice_elems_nth:
  assumes "slice_wf h rs" and "k < s_len rs"
  shows "slice_elems h rs ! k = (h ! s_arr rs) ! (s_off rs + k)"
  using assms by (simp add: slice_elems_def slice_wf_def)

lemma length_filter_take: "length (filter P (take k xs)) \<le> k"
  by (metis length_filter_le length_take min.cobounded2 le_trans)

lemma keep_response_prefix:
  assumes wf: "slice_wf h rs" and k: "k < s_len rs"
    and F: "F = filter (accepted v) (take k (slice_elems h rs))"
    and A: "A = h ! s_arr rs"
  shows "keep_response x
           \<lparr>f_store = h[s_arr rs := take (s_off rs) A @ F @ drop (s_off rs + length F) A],
            f_filtered = rs\<lparr>s_len := length F\<rparr>, f_errs = e, f_events = ev\<rparr>
         = \<lparr>f_store =
              h[s_arr rs := take (s_off rs) A @ (F @ [x]) @ drop (s_off rs + Suc (length F)) A],
            f_filtered = rs\<lparr>s_len := Suc (length F)\<rparr>, f_errs = e, f_events = ev\<rparr>"
proof -
  have lF: "length F \<le> k"
    unfolding F by (rule length_filter_take)
  have cap: "length F < s_cap rs"
    using lF k wf by (simp add: slice_wf_def)
  have inA: "s_off rs + length F < length A"
    using cap wf A by (simp add: slice_wf_def)
  have arr: "s_arr rs < length h"
    using wf by (simp add: slice_wf_def)
  show ?thesis
    using cap arr update_behind_written[OF inA]
    by (simp add: keep_response_def slice_append_def)
qed

lemma filterStep_prefix:
  assumes wf: "slice_wf h rs" and k: "k < s_len rs"
  shows "filterStep v (slice_get (f_store (filtered_prefix h rs errs v k)) rs k)
           (filtered_prefix h rs errs v k)
         = filtered_prefix h rs errs v (Suc k)"
proof -
  define xs where "xs = slice_elems h rs"
  define F where "F = filter (accepted v) (take k xs)"
  define A where "A = h ! s_arr rs"
  define x where "x = xs ! k"
  have lxs: "length xs = s_len rs"
    using wf by (simp add: xs_def length_slice_elems)
  have lF: "length F \<le> k"
    unfolding F_def by (rule length_filter_take)
  have arr: "s_arr rs < length h"
    using wf by (simp add: slice_wf_def)
  have inA: "s_off rs + k < length A"
    using k wf by (simp add: slice_wf_def A_def)
  have get: "slice_get (f_store (filtered_prefix h rs errs v k)) rs k = x"
    using arr nth_behind_written[OF lF inA] slice_elems_nth[OF wf k]
    by (simp add: filtered_prefix_def slice_get_def Let_def F_def[symmetric] xs_def[symmetric]
        A_def[symmetric] x_def)
  have tk: "take (Suc k) xs = take k xs @ [x]"
    using k lxs by (simp add: take_Suc_conv_app_nth x_def)
  note kp = keep_response_prefix[OF wf k F_def[unfolded xs_def] A_def]
  show ?thesis
    unfolding get
    apply (simp add: filtered_prefix_def Let_def xs_def[symmetric] tk F_def[symmetric]
        A_def[symmetric])
    apply (cases "accepted v x")
     apply (auto simp: filterStep_def accepted_def rejections_def verify_events_def kp
        append_all_append append_all_def split: option.splits)
    done
qed

lemma filterResponses_prefix:
  assumes wf: "slice_wf h rs" and k: "k \<le> s_len rs"
  shows "fold (\<lambda>i st. filterStep v (slice_get (f_store st) rs i) st) [0 ..< k]
           \<lparr>f_store = h, f_filtered = rs\<lparr>s_len := 0\<rparr>, f_errs = errs, f_events = []\<rparr>
         = filtered_prefix h rs errs v k"
  using k
proof (induction k)
  case 0
  have "h[s_arr rs := take (s_off rs) (h ! s_arr rs) @ drop (s_off rs) (h ! s_arr rs)] = h"
    by simp
  then show ?case
    by (simp add: filtered_prefix_def append_all_def)
next
  case (Suc k)
  then show ?case
    using filterStep_prefix[OF wf, of k] by simp
qed

lemma filterResponses_eq:
  assumes wf: "slice_wf h rs"
  shows "filterResponses h rs errs v = filtered_prefix h rs errs v (s_len rs)"
  unfolding filterResponses_def using filterResponses_prefix[OF wf order_refl] .

lemma take_all_slice_elems:
  assumes "slice_wf h rs"
  shows "take (s_len rs) (slice_elems h rs) = slice_elems h rs"
  using length_slice_elems[OF assms] by simp

lemma filterResponses_store:
  assumes wf: "slice_wf h rs"
  shows "f_store (filterResponses h rs errs v) =
           h[s_arr rs := take (s_off rs) (h ! s_arr rs) @ filter (accepted v) (slice_elems h rs) @
               drop (s_off rs + length (filter (accepted v) (slice_elems h rs))) (h ! s_arr rs)]"
  by (simp add: filterResponses_eq[OF wf] filtered_prefix_def Let_def take_all_slice_elems[OF wf])

lemma filterResponses_filtered:
  assumes wf: "slice_wf h rs"
  shows "f_filtered (filterResponses h rs errs v) =
           rs\<lparr>s_len := length (filter (accepted v) (slice_elems h rs))\<rparr>"
  by (simp add: filterResponses_eq[OF wf] filtered_prefix_def Let_def take_all_slice_elems[OF wf])

lemma filterResponses_errs:
  assumes wf: "slice_wf h rs"
  shows "f_errs (filterResponses h rs errs v) =
           append_all errs (concat (map (rejections v) (slice_elems h rs)))"
  by (simp add: filterResponses_eq[OF wf] filtered_prefix_def Let_def take_all_slice_elems[OF wf])

lemma filterResponses_events:
  assumes wf: "slice_wf h rs"
  shows "f_events (filterResponses h rs errs v) =
           concat (map (verify_events v) (slice_elems h rs))"
  by (simp add: filterResponses_eq[OF wf] filtered_prefix_def Let_def take_all_slice_elems[OF wf])

lemma filterResponses_elems:
  assumes wf: "slice_wf h rs"
  shows "slice_elems (f_store (filterResponses h rs errs v))
           (f_filtered (filterResponses h rs errs v)) = filter (accepted v) (slice_elems h rs)"
proof -
  have arr: "s_arr rs < length h" and off: "s_off rs \<le> length (h ! s_arr rs)"
    using wf by (simp_all add: slice_wf_def)
  have l: "length (take (s_off rs) (h ! s_arr rs)) = s_off rs"
    using off by simp
  show ?thesis
    using arr l
    by (simp add: filterResponses_store[OF wf] filterResponses_filtered[OF wf] slice_elems_def)
qed

lemma filterResponses_input_after:
  assumes wf: "slice_wf h rs"
  shows "slice_elems (f_store (filterResponses h rs errs v)) rs =
           filter (accepted v) (slice_elems h rs) @
           drop (length (filter (accepted v) (slice_elems h rs))) (slice_elems h rs)"
proof -
  define F where "F = filter (accepted v) (slice_elems h rs)"
  have arr: "s_arr rs < length h" and off: "s_off rs \<le> length (h ! s_arr rs)"
    using wf by (simp_all add: slice_wf_def)
  have lF: "length F \<le> s_len rs"
    unfolding F_def using length_slice_elems[OF wf] by (metis length_filter_le)
  have l: "length (take (s_off rs) (h ! s_arr rs)) = s_off rs"
    using off by simp
  have "slice_elems (f_store (filterResponses h rs errs v)) rs
        = take (s_len rs) (F @ drop (s_off rs + length F) (h ! s_arr rs))"
    using arr l by (simp add: filterResponses_store[OF wf] slice_elems_def F_def)
  also have "\<dots> = F @ take (s_len rs - length F) (drop (s_off rs + length F) (h ! s_arr rs))"
    using lF by simp
  also have "take (s_len rs - length F) (drop (s_off rs + length F) (h ! s_arr rs))
             = drop (length F) (slice_elems h rs)"
    by (simp add: slice_elems_def drop_take add.commute)
  finally show ?thesis
    by (simp add: F_def)
qed

lemma rejections_count:
  "length (concat (map (rejections v) xs)) = length (filter (\<lambda>r. \<not> accepted v r) xs)"
  by (induction xs) (auto simp: rejections_def accepted_def split: option.splits)

lemma rejections_origin:
  assumes "\<not> accepted v r"
  shows "\<exists>fmt a. rejections v r = [Errorf fmt [ArgString (Endorser r), a]]"
  using assms by (auto simp: rejections_def accepted_def split: option.splits)

subsection \<open>Claims\<close>

text \<open>
  C3. A call of QueryConfigBlock with an empty target list returns no artifact and the
  error "target(s) required", and nothing has been done before: the log of events is
  empty, so no transaction header or proposal was created and nothing was sent.
\<close>

theorem QueryConfigBlock_no_targets:
  "QueryConfigBlock e p c [] v = (Return (Inl (New ''target(s) required'')), [])"
  by (simp add: QueryConfigBlock_def)

text \<open>
  C5. For every batch of raw responses (a well-formed slice) and every verifier, absent
  or not, the filter retains exactly the responses with status 200 that the verifier, if
  any, accepts; the aggregated error gains exactly one entry per rejected response, in
  order, each built from the endorser of the response it rejects; and the whole input is
  processed: every response is either retained or recorded, and every response with
  status 200 is shown to the verifier.
\<close>

theorem filterResponses_retains_and_records:
  assumes wf: "slice_wf h responses"
  shows "slice_elems (f_store (filterResponses h responses errs v))
           (f_filtered (filterResponses h responses errs v))
         = filter (accepted v) (slice_elems h responses)
       \<and> error_entries (f_errs (filterResponses h responses errs v))
         = error_entries errs @ concat (map (rejections v) (slice_elems h responses))
       \<and> length (concat (map (rejections v) (slice_elems h responses)))
         = length (filter (\<lambda>r. \<not> accepted v r) (slice_elems h responses))
       \<and> (\<forall>r \<in> set (slice_elems h responses). \<not> accepted v r \<longrightarrow>
            (\<exists>fmt a. rejections v r = [Errorf fmt [ArgString (Endorser r), a]]))
       \<and> f_events (filterResponses h responses errs v)
         = concat (map (verify_events v) (slice_elems h responses))
       \<and> length (filter (accepted v) (slice_elems h responses))
         + length (filter (\<lambda>r. \<not> accepted v r) (slice_elems h responses))
         = s_len responses"
proof -
  have "length (filter (accepted v) (slice_elems h responses))
        + length (filter (\<lambda>r. \<not> accepted v r) (slice_elems h responses))
        = length (slice_elems h responses)"
    by (rule sum_length_filter_compl)
  then show ?thesis
    using filterResponses_elems[OF wf] rejections_count rejections_origin
    by (simp add: filterResponses_errs[OF wf] filterResponses_events[OF wf]
        error_entries_append_all length_slice_elems[OF wf])
qed

theorem filterResponses_retains_and_records_witness:
  "slice_wf [[peer_response ''p1'' 500 [], peer_response ''p2'' 200 [1],
              peer_response ''p3'' 200 [2]]]
     \<lparr>s_arr = 0, s_off = 0, s_len = 3, s_cap = 3\<rparr>
   \<and> slice_elems
       (f_store (filterResponses
          [[peer_response ''p1'' 500 [], peer_response ''p2'' 200 [1],
            peer_response ''p3'' 200 [2]]]
          \<lparr>s_arr = 0, s_off = 0, s_len = 3, s_cap = 3\<rparr> None
          (Some (accept_all\<lparr>Verify := (\<lambda>r. if Endorser r = ''p3''
                                            then Some (New ''bad signature'') else None)\<rparr>))))
       (f_filtered (filterResponses
          [[peer_response ''p1'' 500 [], peer_response ''p2'' 200 [1],
            peer_response ''p3'' 200 [2]]]
          \<lparr>s_arr = 0, s_off = 0, s_len = 3, s_cap = 3\<rparr> None
          (Some (accept_all\<lparr>Verify := (\<lambda>r. if Endorser r = ''p3''
                                            then Some (New ''bad signature'') else None)\<rparr>))))
     = [peer_response ''p2'' 200 [1]]
   \<and> error_entries
       (f_errs (filterResponses
          [[peer_response ''p1'' 500 [], peer_response ''p2'' 200 [1],
            peer_response ''p3'' 200 [2]]]
          \<lparr>s_arr = 0, s_off = 0, s_len = 3, s_cap = 3\<rparr> None
          (Some (accept_all\<lparr>Verify := (\<lambda>r. if Endorser r = ''p3''
                                            then Some (New ''bad signature'') else None)\<rparr>))))
     = [Errorf ''bad status from %s (%d)'' [ArgString ''p1'', ArgInt32 500],
        Errorf ''failed to verify response from %s: %s''
          [ArgString ''p3'', ArgError (New ''bad signature'')]]
   \<and> peer_response ''p1'' 500 []
       \<in> set (slice_elems [[peer_response ''p1'' 500 [], peer_response ''p2'' 200 [1],
                               peer_response ''p3'' 200 [2]]]
                \<lparr>s_arr = 0, s_off = 0, s_len = 3, s_cap = 3\<rparr>)
   \<and> \<not> accepted None (peer_response ''p1'' 500 [])"
proof -
  have wf: "slice_wf [[peer_response ''p1'' 500 [], peer_response ''p2'' 200 [1],
                       peer_response ''p3'' 200 [2]]]
              \<lparr>s_arr = 0, s_off = 0, s_len = 3, s_cap = 3\<rparr>"
    by (simp add: slice_wf_def)
  show ?thesis
    using wf filterResponses_retains_and_records[OF wf, of None
        "Some (accept_all\<lparr>Verify := (\<lambda>r. if Endorser r = ''p3''
                                          then Some (New ''bad signature'') else None)\<rparr>)"]
    by (simp add: slice_elems_def accepted_def rejections_def peer_response_def StatusOK_def
        accept_all_def)
qed

text \<open>
  C10. The filtered slice is the input slice cut to length 0 and grown in place: it has
  the array, the offset and the capacity of the input, and the loop writes the retained
  responses over the front of the input's backing array. After the call the caller's raw
  slice reads as the retained responses followed by what was behind them before, so its
  original contents survive only when the retained responses were already its front.
\<close>

theorem filterResponses_overwrites_input:
  assumes wf: "slice_wf h responses"
  shows "f_filtered (filterResponses h responses errs v)
         = responses\<lparr>s_len := length (filter (accepted v) (slice_elems h responses))\<rparr>
       \<and> f_store (filterResponses h responses errs v)
         = h[s_arr responses :=
               take (s_off responses) (h ! s_arr responses) @
               filter (accepted v) (slice_elems h responses) @
               drop (s_off responses + length (filter (accepted v) (slice_elems h responses)))
                 (h ! s_arr responses)]
       \<and> slice_elems (f_store (filterResponses h responses errs v)) responses
         = filter (accepted v) (slice_elems h responses) @
           drop (length (filter (accepted v) (slice_elems h responses))) (slice_elems h responses)
       \<and> (slice_elems (f_store (filterResponses h responses errs v)) responses
            = slice_elems h responses
          \<longleftrightarrow> filter (accepted v) (slice_elems h responses)
            = take (length (filter (accepted v) (slice_elems h responses)))
                (slice_elems h responses))"
proof -
  define xs where "xs = slice_elems h responses"
  define F where "F = filter (accepted v) xs"
  have after: "slice_elems (f_store (filterResponses h responses errs v)) responses
               = F @ drop (length F) xs"
    unfolding F_def xs_def by (rule filterResponses_input_after[OF wf])
  have lF: "length F \<le> length xs"
    unfolding F_def by (rule length_filter_le)
  have "F @ drop (length F) xs = take (length F) xs @ drop (length F) xs
        \<longleftrightarrow> F = take (length F) xs"
    using lF by (subst append_eq_append_conv) simp_all
  then have "F @ drop (length F) xs = xs \<longleftrightarrow> F = take (length F) xs"
    by (simp only: append_take_drop_id)
  then show ?thesis
    using after filterResponses_filtered[OF wf, of errs v] filterResponses_store[OF wf, of errs v]
    by (simp add: F_def xs_def)
qed

theorem filterResponses_overwrites_input_witness:
  "slice_wf [[peer_response ''p1'' 500 [], peer_response ''p2'' 200 [1]]]
     \<lparr>s_arr = 0, s_off = 0, s_len = 2, s_cap = 2\<rparr>
   \<and> f_filtered (filterResponses [[peer_response ''p1'' 500 [], peer_response ''p2'' 200 [1]]]
        \<lparr>s_arr = 0, s_off = 0, s_len = 2, s_cap = 2\<rparr> None None)
     = \<lparr>s_arr = 0, s_off = 0, s_len = 1, s_cap = 2\<rparr>
   \<and> f_store (filterResponses [[peer_response ''p1'' 500 [], peer_response ''p2'' 200 [1]]]
        \<lparr>s_arr = 0, s_off = 0, s_len = 2, s_cap = 2\<rparr> None None)
     = [[peer_response ''p2'' 200 [1], peer_response ''p2'' 200 [1]]]
   \<and> slice_elems
        (f_store (filterResponses [[peer_response ''p1'' 500 [], peer_response ''p2'' 200 [1]]]
           \<lparr>s_arr = 0, s_off = 0, s_len = 2, s_cap = 2\<rparr> None None))
        \<lparr>s_arr = 0, s_off = 0, s_len = 2, s_cap = 2\<rparr>
     \<noteq> slice_elems [[peer_response ''p1'' 500 [], peer_response ''p2'' 200 [1]]]
         \<lparr>s_arr = 0, s_off = 0, s_len = 2, s_cap = 2\<rparr>"
proof -
  have wf: "slice_wf [[peer_response ''p1'' 500 [], peer_response ''p2'' 200 [1]]]
              \<lparr>s_arr = 0, s_off = 0, s_len = 2, s_cap = 2\<rparr>"
    by (simp add: slice_wf_def)
  show ?thesis
    using wf filterResponses_overwrites_input[OF wf, of None None]
    by (simp add: slice_elems_def accepted_def peer_response_def StatusOK_def)
qed

subsection \<open>The configuration query after dispatch\<close>

lemma QueryConfigBlock_after_dispatch:
  assumes q: "queryChaincode e (chName c) (createConfigBlockInvokeRequest e (chName c)) targets v
              = ((tprs, err), evs)"
    and t: "targets \<noteq> []"
  shows "QueryConfigBlock e p c targets v =
           (case (err, tprs) of
              (Some qerr, []) \<Rightarrow> (Return (Inl (WithMessage qerr ''queryChaincode failed'')), evs)
            | _ \<Rightarrow> (fst (matchAndExtract p v tprs), evs @ snd (matchAndExtract p v tprs)))"
  unfolding QueryConfigBlock_def Let_def q
  using t by (simp add: case_prod_unfold split: option.splits list.splits)

lemma matchAndExtract_artifact:
  assumes "fst (matchAndExtract p v tprs) = Return (Inr cfg)"
  shows "\<exists>vf. v = Some vf \<and> Match vf tprs = None \<and> snd (matchAndExtract p v tprs) = [EvMatch tprs]"
  using assms by (auto simp: matchAndExtract_def split: option.splits)

text \<open>
  C4. Once the dispatch has produced the filtered set (and the call has not already ended
  on an empty set with a dispatch error), QueryConfigBlock calls Match on exactly that
  set; an error from Match is the error of the call, with no artifact. Whenever the call
  returns an artifact, Match has been called on the filtered set, as the last event of the
  call, and has returned no error.
\<close>

theorem QueryConfigBlock_Match_is_fatal:
  assumes q: "queryChaincode e (chName c) (createConfigBlockInvokeRequest e (chName c)) targets v
              = ((tprs, err), evs)"
    and t: "targets \<noteq> []"
  shows "(\<forall>vf matchErr. v = Some vf \<and> Match vf tprs = Some matchErr \<and> (tprs \<noteq> [] \<or> err = None) \<longrightarrow>
            QueryConfigBlock e p c targets v = (Return (Inl matchErr), evs @ [EvMatch tprs]))
       \<and> (\<forall>cfg. fst (QueryConfigBlock e p c targets v) = Return (Inr cfg) \<longrightarrow>
            (\<exists>vf. v = Some vf \<and> Match vf tprs = None) \<and>
            snd (QueryConfigBlock e p c targets v) = evs @ [EvMatch tprs])"
proof (intro conjI allI impI)
  fix vf matchErr
  assume a: "v = Some vf \<and> Match vf tprs = Some matchErr \<and> (tprs \<noteq> [] \<or> err = None)"
  then have m: "matchAndExtract p v tprs = (Return (Inl matchErr), [EvMatch tprs])"
    by (simp add: matchAndExtract_def)
  from a have reached: "tprs \<noteq> [] \<or> err = None"
    by simp
  have "QueryConfigBlock e p c targets v
        = (fst (matchAndExtract p v tprs), evs @ snd (matchAndExtract p v tprs))"
    using reached
    by (auto simp: QueryConfigBlock_after_dispatch[OF q t] split: option.splits list.splits)
  then show "QueryConfigBlock e p c targets v = (Return (Inl matchErr), evs @ [EvMatch tprs])"
    by (simp add: m)
next
  fix cfg
  assume r: "fst (QueryConfigBlock e p c targets v) = Return (Inr cfg)"
  then have m: "fst (matchAndExtract p v tprs) = Return (Inr cfg)"
    and ev: "snd (QueryConfigBlock e p c targets v) = evs @ snd (matchAndExtract p v tprs)"
    by (auto simp: QueryConfigBlock_after_dispatch[OF q t] split: option.splits list.splits)
  from matchAndExtract_artifact[OF m] ev
  show "\<exists>vf. v = Some vf \<and> Match vf tprs = None"
    and "snd (QueryConfigBlock e p c targets v) = evs @ [EvMatch tprs]"
    by auto
qed

theorem QueryConfigBlock_Match_is_fatal_witness:
  "QueryConfigBlock one_peer_env toy_proto testChannel [''Peer1''] (Some quorum_of_two)
   = (Return (Inl (Errorf ''required minimum %d responses, got %d'' [ArgInt32 2, ArgInt32 1])),
      snd (queryChaincode one_peer_env (chName testChannel)
             (createConfigBlockInvokeRequest one_peer_env (chName testChannel)) [''Peer1'']
             (Some quorum_of_two))
      @ [EvMatch [peer_response ''Peer1'' 200 config_block_payload]])
   \<and> fst (QueryConfigBlock one_peer_env toy_proto testChannel [''Peer1''] (Some accept_all))
     = Return (Inr \<lparr>ConfigEnvelope_Config = [42], ConfigEnvelope_LastUpdate = []\<rparr>)
   \<and> snd (QueryConfigBlock one_peer_env toy_proto testChannel [''Peer1''] (Some accept_all))
     = snd (queryChaincode one_peer_env (chName testChannel)
              (createConfigBlockInvokeRequest one_peer_env (chName testChannel)) [''Peer1'']
              (Some accept_all))
       @ [EvMatch [peer_response ''Peer1'' 200 config_block_payload]]"
proof -
  have f1: "fst (queryChaincode one_peer_env (chName testChannel)
                   (createConfigBlockInvokeRequest one_peer_env (chName testChannel)) [''Peer1'']
                   (Some quorum_of_two))
            = ([peer_response ''Peer1'' 200 config_block_payload], None)"
    by code_simp
  have f2: "fst (queryChaincode one_peer_env (chName testChannel)
                   (createConfigBlockInvokeRequest one_peer_env (chName testChannel)) [''Peer1'']
                   (Some accept_all))
            = ([peer_response ''Peer1'' 200 config_block_payload], None)"
    by code_simp
  have t: "[''Peer1''] \<noteq> ([] :: target list)"
    by simp
  have m: "Match quorum_of_two [peer_response ''Peer1'' 200 config_block_payload]
           = Some (Errorf ''required minimum %d responses, got %d'' [ArgInt32 2, ArgInt32 1])"
    by (simp add: quorum_of_two_def quorumVerifier_def)
  have r: "fst (QueryConfigBlock one_peer_env toy_proto testChannel [''Peer1''] (Some accept_all))
           = Return (Inr \<lparr>ConfigEnvelope_Config = [42], ConfigEnvelope_LastUpdate = []\<rparr>)"
    by code_simp
  have q1: "queryChaincode one_peer_env (chName testChannel)
              (createConfigBlockInvokeRequest one_peer_env (chName testChannel)) [''Peer1'']
              (Some quorum_of_two)
            = (([peer_response ''Peer1'' 200 config_block_payload], None),
               snd (queryChaincode one_peer_env (chName testChannel)
                      (createConfigBlockInvokeRequest one_peer_env (chName testChannel))
                      [''Peer1''] (Some quorum_of_two)))"
    using f1 by (simp add: prod_eq_iff)
  have q2: "queryChaincode one_peer_env (chName testChannel)
              (createConfigBlockInvokeRequest one_peer_env (chName testChannel)) [''Peer1'']
              (Some accept_all)
            = (([peer_response ''Peer1'' 200 config_block_payload], None),
               snd (queryChaincode one_peer_env (chName testChannel)
                      (createConfigBlockInvokeRequest one_peer_env (chName testChannel))
                      [''Peer1''] (Some accept_all)))"
    using f2 by (simp add: prod_eq_iff)
  show ?thesis
    using QueryConfigBlock_Match_is_fatal[OF q1 t, of toy_proto]
      QueryConfigBlock_Match_is_fatal[OF q2 t, of toy_proto] m r
    by simp
qed

text \<open>
  C9. When the dispatch leaves a non-empty filtered set, QueryConfigBlock goes on to call
  Match on that set, after the events of the dispatch, and its result is the error of
  Match or, when Match accepts, the extraction from the filtered set: the aggregated
  per-target error of the dispatch does not enter the result, whether it is nil or not,
  and an artifact comes without it. The dispatch error reaches the caller (wrapped as
  "queryChaincode failed") only when the filtered set is empty, and then Match is not
  called.
\<close>

theorem QueryConfigBlock_drops_dispatch_error:
  assumes q: "queryChaincode e (chName c) (createConfigBlockInvokeRequest e (chName c)) targets v
              = ((tprs, err), evs)"
    and t: "targets \<noteq> []"
  shows "(\<forall>vf matchErr. tprs \<noteq> [] \<and> v = Some vf \<and> Match vf tprs = Some matchErr \<longrightarrow>
            QueryConfigBlock e p c targets v
            = (Return (Inl matchErr), evs @ [EvMatch tprs]))
       \<and> (\<forall>vf. tprs \<noteq> [] \<and> v = Some vf \<and> Match vf tprs = None \<longrightarrow>
            QueryConfigBlock e p c targets v
            = (extractConfig p tprs, evs @ [EvMatch tprs]))
       \<and> (tprs \<noteq> [] \<and> v = None \<longrightarrow>
            QueryConfigBlock e p c targets v = (Panic NilDereference, evs))
       \<and> (\<forall>qerr. tprs = [] \<and> err = Some qerr \<longrightarrow>
            QueryConfigBlock e p c targets v
            = (Return (Inl (WithMessage qerr ''queryChaincode failed'')), evs))"
proof (intro conjI allI impI)
  fix vf matchErr
  assume a: "tprs \<noteq> [] \<and> v = Some vf \<and> Match vf tprs = Some matchErr"
  then have m: "matchAndExtract p v tprs = (Return (Inl matchErr), [EvMatch tprs])"
    by (simp add: matchAndExtract_def)
  from a have ne: "tprs \<noteq> []"
    by simp
  have "QueryConfigBlock e p c targets v
        = (fst (matchAndExtract p v tprs), evs @ snd (matchAndExtract p v tprs))"
    using ne
    by (auto simp: QueryConfigBlock_after_dispatch[OF q t] split: option.splits list.splits)
  then show "QueryConfigBlock e p c targets v = (Return (Inl matchErr), evs @ [EvMatch tprs])"
    by (simp add: m)
next
  fix vf
  assume a: "tprs \<noteq> [] \<and> v = Some vf \<and> Match vf tprs = None"
  then have m: "matchAndExtract p v tprs = (extractConfig p tprs, [EvMatch tprs])"
    by (simp add: matchAndExtract_def)
  from a have ne: "tprs \<noteq> []"
    by simp
  have "QueryConfigBlock e p c targets v
        = (fst (matchAndExtract p v tprs), evs @ snd (matchAndExtract p v tprs))"
    using ne
    by (auto simp: QueryConfigBlock_after_dispatch[OF q t] split: option.splits list.splits)
  then show "QueryConfigBlock e p c targets v = (extractConfig p tprs, evs @ [EvMatch tprs])"
    by (simp add: m)
next
  assume a: "tprs \<noteq> [] \<and> v = None"
  then have m: "matchAndExtract p v tprs = (Panic NilDereference, [])"
    by (simp add: matchAndExtract_def)
  from a have ne: "tprs \<noteq> []"
    by simp
  have "QueryConfigBlock e p c targets v
        = (fst (matchAndExtract p v tprs), evs @ snd (matchAndExtract p v tprs))"
    using ne
    by (auto simp: QueryConfigBlock_after_dispatch[OF q t] split: option.splits list.splits)
  then show "QueryConfigBlock e p c targets v = (Panic NilDereference, evs)"
    by (simp add: m)
next
  fix qerr
  assume "tprs = [] \<and> err = Some qerr"
  then show "QueryConfigBlock e p c targets v
             = (Return (Inl (WithMessage qerr ''queryChaincode failed'')), evs)"
    by (simp add: QueryConfigBlock_after_dispatch[OF q t])
qed

theorem QueryConfigBlock_drops_dispatch_error_witness:
  "queryChaincode two_peer_env (chName testChannel)
     (createConfigBlockInvokeRequest two_peer_env (chName testChannel))
     [''Peer0'', ''Peer1''] (Some accept_all)
   = (([peer_response ''Peer1'' 200 config_block_payload],
       Some (Errors [Errorf ''bad status from %s (%d)'' [ArgString ''Peer0'', ArgInt32 500]])),
      [EvNewHeader ''testChannel'',
       EvCreateProposal (createConfigBlockInvokeRequest two_peer_env ''testChannel''),
       EvSendProposal
         (TransactionProposal (TransactionHeader ''txid'' ''testChannel'')
            (createConfigBlockInvokeRequest two_peer_env ''testChannel''))
         [''Peer0'', ''Peer1''],
       EvVerify (peer_response ''Peer1'' 200 config_block_payload)])
   \<and> QueryConfigBlock two_peer_env toy_proto testChannel [''Peer0'', ''Peer1'']
       (Some accept_all)
     = (Return (Inr \<lparr>ConfigEnvelope_Config = [42], ConfigEnvelope_LastUpdate = []\<rparr>),
        [EvNewHeader ''testChannel'',
         EvCreateProposal (createConfigBlockInvokeRequest two_peer_env ''testChannel''),
         EvSendProposal
           (TransactionProposal (TransactionHeader ''txid'' ''testChannel'')
              (createConfigBlockInvokeRequest two_peer_env ''testChannel''))
           [''Peer0'', ''Peer1''],
         EvVerify (peer_response ''Peer1'' 200 config_block_payload),
         EvMatch [peer_response ''Peer1'' 200 config_block_payload]])
   \<and> QueryConfigBlock two_peer_env toy_proto testChannel [''Peer0'', ''Peer1'']
       (Some quorum_of_two)
     = (Return (Inl (Errorf ''required minimum %d responses, got %d''
                       [ArgInt32 2, ArgInt32 1])),
        [EvNewHeader ''testChannel'',
         EvCreateProposal (createConfigBlockInvokeRequest two_peer_env ''testChannel''),
         EvSendProposal
           (TransactionProposal (TransactionHeader ''txid'' ''testChannel'')
              (createConfigBlockInvokeRequest two_peer_env ''testChannel''))
           [''Peer0'', ''Peer1''],
         EvVerify (peer_response ''Peer1'' 200 config_block_payload),
         EvMatch [peer_response ''Peer1'' 200 config_block_payload]])
   \<and> QueryConfigBlock failing_peer_env toy_proto testChannel [''Peer1''] (Some accept_all)
     = (Return (Inl (WithMessage
          (Errors [Errorf ''bad status from %s (%d)'' [ArgString ''Peer1'', ArgInt32 500]])
          ''queryChaincode failed'')),
        [EvNewHeader ''testChannel'',
         EvCreateProposal (createConfigBlockInvokeRequest failing_peer_env ''testChannel''),
         EvSendProposal
           (TransactionProposal (TransactionHeader ''txid'' ''testChannel'')
              (createConfigBlockInvokeRequest failing_peer_env ''testChannel''))
           [''Peer1'']])"
proof -
  have q1: "queryChaincode two_peer_env (chName testChannel)
              (createConfigBlockInvokeRequest two_peer_env (chName testChannel))
              [''Peer0'', ''Peer1''] (Some accept_all)
            = (([peer_response ''Peer1'' 200 config_block_payload],
                Some (Errors [Errorf ''bad status from %s (%d)''
                                [ArgString ''Peer0'', ArgInt32 500]])),
               [EvNewHeader ''testChannel'',
                EvCreateProposal (createConfigBlockInvokeRequest two_peer_env ''testChannel''),
                EvSendProposal
                  (TransactionProposal (TransactionHeader ''txid'' ''testChannel'')
                     (createConfigBlockInvokeRequest two_peer_env ''testChannel''))
                  [''Peer0'', ''Peer1''],
                EvVerify (peer_response ''Peer1'' 200 config_block_payload)])"
    by code_simp
  have q2: "queryChaincode two_peer_env (chName testChannel)
              (createConfigBlockInvokeRequest two_peer_env (chName testChannel))
              [''Peer0'', ''Peer1''] (Some quorum_of_two)
            = (([peer_response ''Peer1'' 200 config_block_payload],
                Some (Errors [Errorf ''bad status from %s (%d)''
                                [ArgString ''Peer0'', ArgInt32 500]])),
               [EvNewHeader ''testChannel'',
                EvCreateProposal (createConfigBlockInvokeRequest two_peer_env ''testChannel''),
                EvSendProposal
                  (TransactionProposal (TransactionHeader ''txid'' ''testChannel'')
                     (createConfigBlockInvokeRequest two_peer_env ''testChannel''))
                  [''Peer0'', ''Peer1''],
                EvVerify (peer_response ''Peer1'' 200 config_block_payload)])"
    by code_simp
  have q3: "queryChaincode failing_peer_env (chName testChannel)
              (createConfigBlockInvokeRequest failing_peer_env (chName testChannel))
              [''Peer1''] (Some accept_all)
            = (([], Some (Errors [Errorf ''bad status from %s (%d)''
                                    [ArgString ''Peer1'', ArgInt32 500]])),
               [EvNewHeader ''testChannel'',
                EvCreateProposal
                  (createConfigBlockInvokeRequest failing_peer_env ''testChannel''),
                EvSendProposal
                  (TransactionProposal (TransactionHeader ''txid'' ''testChannel'')
                     (createConfigBlockInvokeRequest failing_peer_env ''testChannel''))
                  [''Peer1'']])"
    by code_simp
  have t2: "[''Peer0'', ''Peer1''] \<noteq> ([] :: target list)"
    and t1: "[''Peer1''] \<noteq> ([] :: target list)"
    by simp_all
  have m1: "Match accept_all [peer_response ''Peer1'' 200 config_block_payload] = None"
    by (simp add: accept_all_def)
  have m2: "Match quorum_of_two [peer_response ''Peer1'' 200 config_block_payload]
            = Some (Errorf ''required minimum %d responses, got %d'' [ArgInt32 2, ArgInt32 1])"
    by (simp add: quorum_of_two_def quorumVerifier_def)
  have x: "extractConfig toy_proto [peer_response ''Peer1'' 200 config_block_payload]
           = Return (Inr \<lparr>ConfigEnvelope_Config = [42], ConfigEnvelope_LastUpdate = []\<rparr>)"
    by code_simp
  show ?thesis
    using q1 QueryConfigBlock_drops_dispatch_error[OF q1 t2, of toy_proto]
      QueryConfigBlock_drops_dispatch_error[OF q2 t2, of toy_proto]
      QueryConfigBlock_drops_dispatch_error[OF q3 t1, of toy_proto] m1 m2 x
    by simp
qed

subsection \<open>The target selector\<close>

lemma mset_without_nth:
  assumes "i < length xs"
  shows "mset xs = add_mset (xs ! i) (mset (take i xs @ drop (Suc i) xs))"
proof -
  have "xs = take i xs @ xs ! i # drop (Suc i) xs"
    using assms by (rule id_take_nth_drop)
  then have "mset xs = mset (take i xs @ xs ! i # drop (Suc i) xs)"
    by simp
  then show ?thesis
    by simp
qed

lemma draw_in_range:
  "(case draws of [] \<Rightarrow> 0 | d # _ \<Rightarrow> d mod length (t # ts)) < length (t # ts)"
  by (cases draws) simp_all

lemma randomMaxTargets_step:
  assumes "i = (case draws of [] \<Rightarrow> 0 | d # _ \<Rightarrow> d mod length (t # ts))"
    and "rest = take i (t # ts) @ drop (Suc i) (t # ts)"
  shows "randomMaxTargets draws (t # ts) (Suc k)
         = (t # ts) ! i # randomMaxTargets (tl draws) rest k"
  unfolding assms randomMaxTargets.simps Let_def by (rule refl)

lemma length_without_nth:
  assumes "i < length xs"
  shows "Suc (length (take i xs @ drop (Suc i) xs)) = length xs"
  using assms by auto

lemma randomMaxTargets_length:
  "length (randomMaxTargets draws targets k) = min k (length targets)"
proof (induction draws targets k rule: randomMaxTargets.induct)
  case (3 draws t ts k)
  define i where "i = (case draws of [] \<Rightarrow> 0 | d # _ \<Rightarrow> d mod length (t # ts))"
  define rest where "rest = take i (t # ts) @ drop (Suc i) (t # ts)"
  have i: "i < length (t # ts)"
    unfolding i_def by (rule draw_in_range)
  have l: "Suc (length rest) = length (t # ts)"
    unfolding rest_def by (rule length_without_nth[OF i])
  have "length (randomMaxTargets (tl draws) rest k) = min k (length rest)"
    using 3[OF i_def] by (simp only: rest_def)
  then show ?case
    using l by (simp add: randomMaxTargets_step[OF i_def rest_def] del: randomMaxTargets.simps)
qed simp_all

lemma randomMaxTargets_mset:
  "mset (randomMaxTargets draws targets k) \<subseteq># mset targets"
proof (induction draws targets k rule: randomMaxTargets.induct)
  case (3 draws t ts k)
  define i where "i = (case draws of [] \<Rightarrow> 0 | d # _ \<Rightarrow> d mod length (t # ts))"
  define rest where "rest = take i (t # ts) @ drop (Suc i) (t # ts)"
  have i: "i < length (t # ts)"
    unfolding i_def by (rule draw_in_range)
  have ih: "mset (randomMaxTargets (tl draws) rest k) \<subseteq># mset rest"
    using 3[OF i_def] by (simp only: rest_def)
  have "mset (randomMaxTargets draws (t # ts) (Suc k))
        = add_mset ((t # ts) ! i) (mset (randomMaxTargets (tl draws) rest k))"
    by (simp add: randomMaxTargets_step[OF i_def rest_def] del: randomMaxTargets.simps)
  also have "\<dots> \<subseteq># add_mset ((t # ts) ! i) (mset rest)"
    using ih by simp
  also have "\<dots> = mset (t # ts)"
    unfolding rest_def using mset_without_nth[OF i] by simp
  finally show ?case .
qed simp_all

lemma randomMaxTargets_set:
  "set (randomMaxTargets draws targets k) \<subseteq> set targets"
  using randomMaxTargets_mset[of draws targets k] by (metis set_mset_mono set_mset_mset)

lemma randomMaxTargets_distinct:
  "distinct targets \<Longrightarrow> distinct (randomMaxTargets draws targets k)"
proof (induction draws targets k rule: randomMaxTargets.induct)
  case (3 draws t ts k)
  define i where "i = (case draws of [] \<Rightarrow> 0 | d # _ \<Rightarrow> d mod length (t # ts))"
  define rest where "rest = take i (t # ts) @ drop (Suc i) (t # ts)"
  have i: "i < length (t # ts)"
    unfolding i_def by (rule draw_in_range)
  have "mset ((t # ts) ! i # rest) = mset (t # ts)"
    unfolding rest_def using mset_without_nth[OF i] by simp
  then have "distinct ((t # ts) ! i # rest)"
    using "3.prems" by (metis mset_eq_imp_distinct_iff)
  then have d: "distinct rest" and n: "(t # ts) ! i \<notin> set rest"
    by simp_all
  have "(t # ts) ! i \<notin> set (randomMaxTargets (tl draws) rest k)"
    using n randomMaxTargets_set[of "tl draws" rest k] by blast
  moreover have "distinct (randomMaxTargets (tl draws) rest k)"
    using "3.IH"[OF i_def] d by (simp only: rest_def)
  ultimately show ?case
    by (simp add: randomMaxTargets_step[OF i_def rest_def] del: randomMaxTargets.simps)
qed simp_all

lemma randomMaxTargets_all:
  "length targets \<le> k \<Longrightarrow> mset (randomMaxTargets draws targets k) = mset targets"
proof (induction draws targets k rule: randomMaxTargets.induct)
  case (3 draws t ts k)
  define i where "i = (case draws of [] \<Rightarrow> 0 | d # _ \<Rightarrow> d mod length (t # ts))"
  define rest where "rest = take i (t # ts) @ drop (Suc i) (t # ts)"
  have i: "i < length (t # ts)"
    unfolding i_def by (rule draw_in_range)
  have "Suc (length rest) = length (t # ts)"
    unfolding rest_def by (rule length_without_nth[OF i])
  then have "length rest \<le> k"
    using "3.prems" by simp
  then have "mset (randomMaxTargets (tl draws) rest k) = mset rest"
    using "3.IH"[OF i_def] by (simp only: rest_def)
  then have "mset (randomMaxTargets draws (t # ts) (Suc k))
             = add_mset ((t # ts) ! i) (mset rest)"
    by (simp add: randomMaxTargets_step[OF i_def rest_def] del: randomMaxTargets.simps)
  also have "\<dots> = mset (t # ts)"
    unfolding rest_def using mset_without_nth[OF i] by simp
  finally show ?case .
qed simp_all

text \<open>
  C7. For a candidate list of size N and a bound k the selector returns min(k, N)
  targets, drawn from the candidates without using a position twice (as a multiset the
  result lies within the candidates), hence distinct when the candidates are; k = 0
  gives the empty list, and k at least N gives all the candidates in some order.
\<close>

theorem randomMaxTargets_selection:
  "length (randomMaxTargets draws targets k) = min k (length targets)
   \<and> mset (randomMaxTargets draws targets k) \<subseteq># mset targets
   \<and> set (randomMaxTargets draws targets k) \<subseteq> set targets
   \<and> (distinct targets \<longrightarrow> distinct (randomMaxTargets draws targets k))
   \<and> randomMaxTargets draws targets 0 = []
   \<and> (length targets \<le> k \<longrightarrow> mset (randomMaxTargets draws targets k) = mset targets)"
proof -
  show ?thesis
    using randomMaxTargets_length[of draws targets k] randomMaxTargets_mset[of draws targets k]
      randomMaxTargets_set[of draws targets k] randomMaxTargets_distinct[of targets draws k]
      randomMaxTargets_all[of targets k draws]
    by simp
qed

theorem randomMaxTargets_selection_witness:
  "distinct [''ONE'', ''TWO'', ''THREE'']
   \<and> randomMaxTargets [1, 1] [''ONE'', ''TWO'', ''THREE''] 2 = [''TWO'', ''THREE'']
   \<and> distinct (randomMaxTargets [1, 1] [''ONE'', ''TWO'', ''THREE''] 2)
   \<and> length [''ONE'', ''TWO'', ''THREE''] \<le> (12 :: nat)
   \<and> randomMaxTargets [1, 1] [''ONE'', ''TWO'', ''THREE''] 12 = [''TWO'', ''THREE'', ''ONE'']
   \<and> mset (randomMaxTargets [1, 1] [''ONE'', ''TWO'', ''THREE''] 12)
     = mset [''ONE'', ''TWO'', ''THREE'']"
proof -
  have d: "distinct [''ONE'', ''TWO'', ''THREE'']"
    by simp
  have a: "randomMaxTargets [1, 1] [''ONE'', ''TWO'', ''THREE''] 2 = [''TWO'', ''THREE'']"
    by code_simp
  have b: "randomMaxTargets [1, 1] [''ONE'', ''TWO'', ''THREE''] 12 = [''TWO'', ''THREE'', ''ONE'']"
    by code_simp
  have l: "length [''ONE'', ''TWO'', ''THREE''] \<le> (12 :: nat)"
    by simp
  show ?thesis
    using randomMaxTargets_selection[of "[1, 1]" "[''ONE'', ''TWO'', ''THREE'']" 2]
      randomMaxTargets_selection[of "[1, 1]" "[''ONE'', ''TWO'', ''THREE'']" 12] d a b l
    by simp
qed

subsection \<open>What queryChaincode returns\<close>

lemma slice_alloc_fresh:
  "slice_wf (snd (slice_alloc [] xs)) (fst (slice_alloc [] xs))"
  "slice_elems (snd (slice_alloc [] xs)) (fst (slice_alloc [] xs)) = xs"
  by (simp_all add: slice_alloc_def slice_wf_def slice_elems_def)

lemma queryChaincode_sent:
  assumes "RequestClientContext e = Some ctx"
    and "NewHeader e ctx channelID = Inr txh"
    and "CreateChaincodeInvokeProposal e txh request = Inr tp"
    and "SendProposal e tp targets = (raw, errs)"
  shows "queryChaincode e channelID request targets v
         = ((filter (accepted v) raw, append_all errs (concat (map (rejections v) raw))),
            [EvNewHeader channelID, EvCreateProposal request, EvSendProposal tp targets]
            @ concat (map (verify_events v) raw))"
proof -
  define rs where "rs = fst (slice_alloc ([] :: TransactionProposalResponse store) raw)"
  define h where "h = snd (slice_alloc ([] :: TransactionProposalResponse store) raw)"
  have wf: "slice_wf h rs" and el: "slice_elems h rs = raw"
    unfolding rs_def h_def by (rule slice_alloc_fresh)+
  have "queryChaincode e channelID request targets v
        = ((slice_elems (f_store (filterResponses h rs errs v))
              (f_filtered (filterResponses h rs errs v)),
            f_errs (filterResponses h rs errs v)),
           [EvNewHeader channelID, EvCreateProposal request, EvSendProposal tp targets]
           @ f_events (filterResponses h rs errs v))"
    by (simp add: queryChaincode_def assms Let_def case_prod_unfold rs_def h_def)
  then show ?thesis
    by (simp add: filterResponses_elems[OF wf] filterResponses_errs[OF wf]
        filterResponses_events[OF wf] el)
qed

lemma queryChaincode_length:
  assumes "\<forall>tp. length (fst (SendProposal e tp targets)) \<le> n"
  shows "length (fst (fst (queryChaincode e channelID request targets v))) \<le> n"
proof (cases "RequestClientContext e")
  case None
  then show ?thesis
    by (simp add: queryChaincode_def)
next
  case (Some ctx)
  show ?thesis
  proof (cases "NewHeader e ctx channelID")
    case (Inl err)
    then show ?thesis
      by (simp add: queryChaincode_def Some)
  next
    case (Inr txh)
    show ?thesis
    proof (cases "CreateChaincodeInvokeProposal e txh request")
      case (Inl err)
      then show ?thesis
        by (simp add: queryChaincode_def Some \<open>NewHeader e ctx channelID = Inr txh\<close>)
    next
      case (Inr tp)
      obtain raw errs where s: "SendProposal e tp targets = (raw, errs)"
        by (cases "SendProposal e tp targets")
      have "length raw \<le> n"
        using assms[rule_format, of tp] s by simp
      then have "length (filter (accepted v) raw) \<le> n"
        by (meson le_trans length_filter_le)
      then show ?thesis
        by (simp add: queryChaincode_sent[OF Some \<open>NewHeader e ctx channelID = Inr txh\<close> Inr s])
    qed
  qed
qed

subsection \<open>Quorum of two with a single response\<close>

text \<open>
  C8, as amended. With the quorum verifier at minResponses = 2 and a dispatch that brings
  back at most one response, the configuration query fails and returns no artifact. When
  a response survives filtering, however valid it is by itself, the failure is the error
  of Match for a set below the minimum; when none survives and the dispatch reported no
  error, it is the error of Match for the empty set; when none survives and the dispatch
  or the filter reported an error, the call ends before Match and the failure is that
  error, wrapped as "queryChaincode failed".
\<close>

theorem quorum_of_two_with_one_response:
  assumes one: "\<forall>tp. length (fst (SendProposal e tp targets)) \<le> 1"
    and t: "targets \<noteq> []"
    and q: "queryChaincode e (chName c) (createConfigBlockInvokeRequest e (chName c)) targets
              (Some (quorumVerifier 2 agree verify)) = ((tprs, err), evs)"
  shows "(\<exists>failure. fst (QueryConfigBlock e p c targets (Some (quorumVerifier 2 agree verify)))
            = Return (Inl failure))
       \<and> (tprs \<noteq> [] \<longrightarrow>
            QueryConfigBlock e p c targets (Some (quorumVerifier 2 agree verify))
            = (Return (Inl (Errorf ''required minimum %d responses, got %d''
                              [ArgInt32 2, ArgInt32 1])),
               evs @ [EvMatch tprs]))
       \<and> (tprs = [] \<and> err = None \<longrightarrow>
            QueryConfigBlock e p c targets (Some (quorumVerifier 2 agree verify))
            = (Return (Inl (New ''no responses to match'')), evs @ [EvMatch tprs]))
       \<and> (\<forall>qerr. tprs = [] \<and> err = Some qerr \<longrightarrow>
            QueryConfigBlock e p c targets (Some (quorumVerifier 2 agree verify))
            = (Return (Inl (WithMessage qerr ''queryChaincode failed'')), evs))"
proof -
  have "length tprs \<le> 1"
    using queryChaincode_length[OF one, of "chName c"
        "createConfigBlockInvokeRequest e (chName c)" "Some (quorumVerifier 2 agree verify)"]
    by (simp add: q)
  then consider "tprs = []" | x where "tprs = [x]"
    by (cases tprs) auto
  then show ?thesis
  proof cases
    case 1
    have m: "Match (quorumVerifier 2 agree verify) [] = Some (New ''no responses to match'')"
      by (simp add: quorumVerifier_def)
    show ?thesis
      by (cases err)
        (simp_all add: QueryConfigBlock_after_dispatch[OF q t] matchAndExtract_def 1 m)
  next
    case 2
    have m: "Match (quorumVerifier 2 agree verify) [x]
             = Some (Errorf ''required minimum %d responses, got %d'' [ArgInt32 2, ArgInt32 1])"
      by (simp add: quorumVerifier_def)
    show ?thesis
      by (cases err)
        (simp_all add: QueryConfigBlock_after_dispatch[OF q t] matchAndExtract_def 2 m)
  qed
qed

theorem quorum_of_two_with_one_response_witness:
  "(\<forall>tp. length (fst (SendProposal one_peer_env tp [''Peer1''])) \<le> 1)
   \<and> fst (fst (queryChaincode one_peer_env (chName testChannel)
                 (createConfigBlockInvokeRequest one_peer_env (chName testChannel)) [''Peer1'']
                 (Some (quorumVerifier 2 (\<lambda>responses. True) (\<lambda>response. None)))))
     = [peer_response ''Peer1'' 200 config_block_payload]
   \<and> fst (QueryConfigBlock one_peer_env toy_proto testChannel [''Peer1'']
            (Some (quorumVerifier 2 (\<lambda>responses. True) (\<lambda>response. None))))
     = Return (Inl (Errorf ''required minimum %d responses, got %d'' [ArgInt32 2, ArgInt32 1]))
   \<and> (\<forall>tp. length (fst (SendProposal silent_env tp [''Peer1''])) \<le> 1)
   \<and> fst (queryChaincode silent_env (chName testChannel)
            (createConfigBlockInvokeRequest silent_env (chName testChannel)) [''Peer1'']
            (Some (quorumVerifier 2 (\<lambda>responses. True) (\<lambda>response. None))))
     = ([], None)
   \<and> fst (QueryConfigBlock silent_env toy_proto testChannel [''Peer1'']
            (Some (quorumVerifier 2 (\<lambda>responses. True) (\<lambda>response. None))))
     = Return (Inl (New ''no responses to match''))
   \<and> (\<forall>tp. length (fst (SendProposal failing_peer_env tp [''Peer1''])) \<le> 1)
   \<and> fst (queryChaincode failing_peer_env (chName testChannel)
            (createConfigBlockInvokeRequest failing_peer_env (chName testChannel)) [''Peer1'']
            (Some (quorumVerifier 2 (\<lambda>responses. True) (\<lambda>response. None))))
     = ([], Some (Errors [Errorf ''bad status from %s (%d)''
                            [ArgString ''Peer1'', ArgInt32 500]]))
   \<and> fst (QueryConfigBlock failing_peer_env toy_proto testChannel [''Peer1'']
            (Some (quorumVerifier 2 (\<lambda>responses. True) (\<lambda>response. None))))
     = Return (Inl (WithMessage
         (Errors [Errorf ''bad status from %s (%d)'' [ArgString ''Peer1'', ArgInt32 500]])
         ''queryChaincode failed''))"
proof -
  have one1: "\<forall>tp. length (fst (SendProposal one_peer_env tp [''Peer1''])) \<le> 1"
    by (simp add: one_peer_env_def dispatch_env_def)
  have one2: "\<forall>tp. length (fst (SendProposal silent_env tp [''Peer1''])) \<le> 1"
    by (simp add: silent_env_def dispatch_env_def)
  have one3: "\<forall>tp. length (fst (SendProposal failing_peer_env tp [''Peer1''])) \<le> 1"
    by (simp add: failing_peer_env_def dispatch_env_def)
  have t: "[''Peer1''] \<noteq> ([] :: target list)"
    by simp
  have f1: "fst (queryChaincode one_peer_env (chName testChannel)
                  (createConfigBlockInvokeRequest one_peer_env (chName testChannel)) [''Peer1'']
                  (Some (quorumVerifier 2 (\<lambda>responses. True) (\<lambda>response. None))))
           = ([peer_response ''Peer1'' 200 config_block_payload], None)"
    by code_simp
  have f2: "fst (queryChaincode silent_env (chName testChannel)
                  (createConfigBlockInvokeRequest silent_env (chName testChannel)) [''Peer1'']
                  (Some (quorumVerifier 2 (\<lambda>responses. True) (\<lambda>response. None))))
           = ([], None)"
    by code_simp
  have f3: "fst (queryChaincode failing_peer_env (chName testChannel)
                  (createConfigBlockInvokeRequest failing_peer_env (chName testChannel))
                  [''Peer1'']
                  (Some (quorumVerifier 2 (\<lambda>responses. True) (\<lambda>response. None))))
           = ([], Some (Errors [Errorf ''bad status from %s (%d)''
                                  [ArgString ''Peer1'', ArgInt32 500]]))"
    by code_simp
  have q1: "queryChaincode one_peer_env (chName testChannel)
             (createConfigBlockInvokeRequest one_peer_env (chName testChannel)) [''Peer1'']
             (Some (quorumVerifier 2 (\<lambda>responses. True) (\<lambda>response. None)))
           = (([peer_response ''Peer1'' 200 config_block_payload], None),
              snd (queryChaincode one_peer_env (chName testChannel)
                     (createConfigBlockInvokeRequest one_peer_env (chName testChannel))
                     [''Peer1'']
                     (Some (quorumVerifier 2 (\<lambda>responses. True) (\<lambda>response. None)))))"
    using f1 by (simp add: prod_eq_iff)
  have q2: "queryChaincode silent_env (chName testChannel)
             (createConfigBlockInvokeRequest silent_env (chName testChannel)) [''Peer1'']
             (Some (quorumVerifier 2 (\<lambda>responses. True) (\<lambda>response. None)))
           = (([], None),
              snd (queryChaincode silent_env (chName testChannel)
                     (createConfigBlockInvokeRequest silent_env (chName testChannel))
                     [''Peer1'']
                     (Some (quorumVerifier 2 (\<lambda>responses. True) (\<lambda>response. None)))))"
    using f2 by (simp add: prod_eq_iff)
  have q3: "queryChaincode failing_peer_env (chName testChannel)
             (createConfigBlockInvokeRequest failing_peer_env (chName testChannel)) [''Peer1'']
             (Some (quorumVerifier 2 (\<lambda>responses. True) (\<lambda>response. None)))
           = (([], Some (Errors [Errorf ''bad status from %s (%d)''
                                   [ArgString ''Peer1'', ArgInt32 500]])),
              snd (queryChaincode failing_peer_env (chName testChannel)
                     (createConfigBlockInvokeRequest failing_peer_env (chName testChannel))
                     [''Peer1'']
                     (Some (quorumVerifier 2 (\<lambda>responses. True) (\<lambda>response. None)))))"
    using f3 by (simp add: prod_eq_iff)
  show ?thesis
    using one1 one2 one3 f1 f2 f3
      quorum_of_two_with_one_response[OF one1 t q1, of toy_proto]
      quorum_of_two_with_one_response[OF one2 t q2, of toy_proto]
      quorum_of_two_with_one_response[OF one3 t q3, of toy_proto]
    by simp
qed

text \<open>
  C8, as stated, fails when the one response does not survive filtering: the peer answers
  with status 500, the filter records it, and QueryConfigBlock ends with the filter's
  error wrapped as "queryChaincode failed"; Match is not called and its quorum error is
  not what the caller sees.
\<close>

theorem quorum_error_counterexample:
  "QueryConfigBlock failing_peer_env toy_proto testChannel [''Peer1''] (Some quorum_of_two)
   = (Return (Inl (WithMessage
        (Errors [Errorf ''bad status from %s (%d)'' [ArgString ''Peer1'', ArgInt32 500]])
        ''queryChaincode failed'')),
      [EvNewHeader ''testChannel'',
       EvCreateProposal (createConfigBlockInvokeRequest failing_peer_env ''testChannel''),
       EvSendProposal
         (TransactionProposal (TransactionHeader ''txid'' ''testChannel'')
            (createConfigBlockInvokeRequest failing_peer_env ''testChannel''))
         [''Peer1'']])"
  by code_simp

subsection \<open>The unwrap chain\<close>

text \<open>
  What the chain does for any decoder: the first data entry of the decoded block goes
  to createConfigEnvelope, which decodes envelope, payload and channel header in this
  order, rejects a header type other than CONFIG and decodes the configuration envelope
  last.
\<close>

lemma extractConfig_first_entry:
  assumes "response_payload tpr = Return bs"
    and "unmarshal_Block p bs = Inr block"
    and "Block_Data block = Some d"
    and "BlockData_Data d = data # others"
  shows "extractConfig p (tpr # rest) = createConfigEnvelope p data"
  by (simp add: extractConfig_def createCommonBlock_def assms)

lemma createConfigEnvelope_decoded:
  assumes "unmarshal_Envelope p data = Inr envelope"
    and "unmarshal_Payload p (Envelope_Payload envelope) = Inr payload"
    and "Payload_Header payload = Some header"
    and "unmarshal_ChannelHeader p (Header_ChannelHeader header) = Inr channelHeader"
  shows "createConfigEnvelope p data =
           (if ChannelHeader_Type channelHeader \<noteq> HeaderType_CONFIG
            then Return (Inl (New block_must_be_CONFIG))
            else (case unmarshal_ConfigEnvelope p (Payload_Data payload) of
                    Inl err \<Rightarrow> Return (Inl (Wrap err ''unmarshal config envelope failed''))
                  | Inr configEnvelope \<Rightarrow> Return (Inr configEnvelope)))"
  by (simp add: createConfigEnvelope_def assms)

lemma createConfigEnvelope_envelope_fails:
  assumes "unmarshal_Envelope p data = Inl err"
  shows "createConfigEnvelope p data
         = Return (Inl (Wrap err ''unmarshal envelope from config block failed''))"
  by (simp add: createConfigEnvelope_def assms)

lemma createConfigEnvelope_payload_fails:
  assumes "unmarshal_Envelope p data = Inr envelope"
    and "unmarshal_Payload p (Envelope_Payload envelope) = Inl err"
  shows "createConfigEnvelope p data
         = Return (Inl (Wrap err ''unmarshal payload from envelope failed''))"
  by (simp add: createConfigEnvelope_def assms)

lemma createConfigEnvelope_header_fails:
  assumes "unmarshal_Envelope p data = Inr envelope"
    and "unmarshal_Payload p (Envelope_Payload envelope) = Inr payload"
    and "Payload_Header payload = Some header"
    and "unmarshal_ChannelHeader p (Header_ChannelHeader header) = Inl err"
  shows "createConfigEnvelope p data
         = Return (Inl (Wrap err ''unmarshal payload from envelope failed''))"
  by (simp add: createConfigEnvelope_def assms)

lemma extractConfig_block_fails:
  assumes "response_payload tpr = Return bs"
    and "unmarshal_Block p bs = Inl err"
  shows "extractConfig p (tpr # rest) = Panic NilDereference"
  by (simp add: extractConfig_def createCommonBlock_def assms)

lemma extractConfig_no_entry:
  assumes "response_payload tpr = Return bs"
    and "unmarshal_Block p bs = Inr block"
    and "Block_Data block = Some d"
    and "BlockData_Data d = []"
  shows "extractConfig p (tpr # rest) = Panic IndexOutOfRange"
  by (simp add: extractConfig_def createCommonBlock_def assms)

lemma QueryTransaction_events:
  "snd (QueryTransaction e p c transactionID targets v)
   = snd (queryChaincode e (chName c)
            (createTransactionByIDInvokeRequest e (chName c) transactionID) targets v)"
  by (simp add: QueryTransaction_def Let_def case_prod_unfold)

subsection \<open>Where the code leaves its documented behaviour\<close>

text \<open>
  C1. The unwrap order is the one the claim gives, but a failing step does not always
  produce an error that identifies it. A payload whose channel header does not decode
  (first run) ends with the very error of a payload that does not decode itself (second
  run): the message "unmarshal payload from envelope failed" is used for both steps. And
  a response that does not decode as a block produces no error at all (third run): the
  error of createCommonBlock is dropped and the call panics on the nil block.
\<close>

theorem unwrap_errors_do_not_identify_the_step:
  "fst (QueryConfigBlock (dispatch_env [peer_response ''Peer1'' 200 [1, 2, 3, 9, 9]] None)
          toy_proto testChannel [''Peer1''] (Some accept_all))
   = Return (Inl (Wrap (UnmarshalError ''proto: bad wiretype'')
                    ''unmarshal payload from envelope failed''))
   \<and> fst (QueryConfigBlock (dispatch_env [peer_response ''Peer1'' 200 [1, 2, 9]] None)
            toy_proto testChannel [''Peer1''] (Some accept_all))
     = Return (Inl (Wrap (UnmarshalError ''proto: bad wiretype'')
                      ''unmarshal payload from envelope failed''))
   \<and> fst (QueryConfigBlock (dispatch_env [peer_response ''Peer1'' 200 [9]] None)
            toy_proto testChannel [''Peer1''] (Some accept_all))
     = Panic NilDereference"
  by code_simp

text \<open>
  C2. With a verifier whose Match accepts the set, a representative response that does
  not decode as a block makes QueryConfigBlock panic on the nil block instead of
  returning an error (first run); so does a block without a data section (second run),
  and a block whose data section has no entry panics on the index (third run).
\<close>

theorem QueryConfigBlock_failed_decode_panics:
  "fst (QueryConfigBlock (dispatch_env [peer_response ''Peer1'' 200 [9]] None)
          toy_proto testChannel [''Peer1''] (Some accept_all))
   = Panic NilDereference
   \<and> unmarshal_Block toy_proto [9] = Inl (UnmarshalError ''proto: bad wiretype'')
   \<and> fst (QueryConfigBlock (dispatch_env [peer_response ''Peer1'' 200 []] None)
            toy_proto testChannel [''Peer1''] (Some accept_all))
     = Panic NilDereference
   \<and> unmarshal_Block toy_proto [] = Inr \<lparr>Block_Data = None\<rparr>
   \<and> fst (QueryConfigBlock (dispatch_env [peer_response ''Peer1'' 200 [0]] None)
            toy_proto testChannel [''Peer1''] (Some accept_all))
     = Panic IndexOutOfRange
   \<and> unmarshal_Block toy_proto [0] = Inr \<lparr>Block_Data = Some \<lparr>BlockData_Data = []\<rparr>\<rparr>"
  by code_simp

text \<open>
  C6. A nil block hash and an empty transaction identifier end QueryBlockByHash and
  QueryBlockByTxID with an error that names the identifier, before anything is created or
  sent. QueryTransaction has no such check: with an empty transaction identifier it
  builds the request, sends the proposal to the targets and returns what they answer.
\<close>

theorem QueryTransaction_sends_empty_identifier:
  "QueryBlockByHash e p c None targets v = (Return ([], Some (New ''blockHash is required'')), [])
   \<and> QueryBlockByTxID e p c [] targets v = (Return ([], Some (New ''txID is required'')), [])
   \<and> QueryTransaction (dispatch_env [peer_response ''Peer1'' 200 [6, 7]] None) toy_proto
       testChannel [] [''Peer1''] None
     = (Return ([\<lparr>ProcessedTransaction_TransactionEnvelope = [7],
                   ProcessedTransaction_ValidationCode = 0\<rparr>], None),
        [EvNewHeader ''testChannel'',
         EvCreateProposal
           \<lparr>ChaincodeID = ''qscc'', Fcn = ''GetTransactionByID'',
            Args = [map of_char ''testChannel'', []]\<rparr>,
         EvSendProposal
           (TransactionProposal (TransactionHeader ''txid'' ''testChannel'')
              \<lparr>ChaincodeID = ''qscc'', Fcn = ''GetTransactionByID'',
               Args = [map of_char ''testChannel'', []]\<rparr>)
           [''Peer1'']])"
proof -
  have "QueryTransaction (dispatch_env [peer_response ''Peer1'' 200 [6, 7]] None) toy_proto
          testChannel [] [''Peer1''] None
        = (Return ([\<lparr>ProcessedTransaction_TransactionEnvelope = [7],
                      ProcessedTransaction_ValidationCode = 0\<rparr>], None),
           [EvNewHeader ''testChannel'',
            EvCreateProposal
              \<lparr>ChaincodeID = ''qscc'', Fcn = ''GetTransactionByID'',
               Args = [map of_char ''testChannel'', []]\<rparr>,
            EvSendProposal
              (TransactionProposal (TransactionHeader ''txid'' ''testChannel'')
                 \<lparr>ChaincodeID = ''qscc'', Fcn = ''GetTransactionByID'',
                  Args = [map of_char ''testChannel'', []]\<rparr>)
              [''Peer1'']])"
    by code_simp
  then show ?thesis
    by (simp add: QueryBlockByHash_def QueryBlockByTxID_def)
qed

end
